theory Spec2Isabelle
  imports Main "HOL-Library.Word" "HOL-Library.Sublist"
begin

section \<open>Data model\<close>

text \<open>
  \<^verbatim>\<open>struct parsedCommand\<close> of the commands header. The opcode, the pointer indicator and
  the emit flag are bytes; the line number is a C \<^verbatim>\<open>int\<close>. The parameter array has
  exactly \<^verbatim>\<open>MAX_PARAMETER_COUNT = 2\<close> slots, so it is a pair of strings; the parser fills
  the slots a command uses, and the null pointer of an unused slot is not modelled.
\<close>

record parsedCommand =
  opcode :: "8 word"
  parameters :: "string \<times> string"
  isPointer :: "8 word"
  lineNum :: int
  translate :: "8 word"

text \<open>
  \<^verbatim>\<open>struct commandsArray\<close>: the array is a list, and its \<^verbatim>\<open>size\<close> field is the length
  of that list.
\<close>

record commandsArray =
  arrayPointer :: "parsedCommand list"
  randomIndex :: nat

definition arraySize :: "commandsArray \<Rightarrow> nat" where
  "arraySize ca = length (arrayPointer ca)"

text \<open>
  \<^verbatim>\<open>struct command\<close>, an entry of the command table, without the surface pattern, the
  parameter type masks and the analysis hook, which neither the analyzers nor the translator read.
\<close>

record command =
  usedParameters :: "8 word"
  translationPattern :: string

text \<open>
  Modelled from the spec: the enumerations and \<^verbatim>\<open>struct compileState\<close> are declared in
  a header that is not among the sources. The state carries the command stream, the log
  verbosity, the compile mode, the optimisation level, the STABS flag and the counter of
  semantic errors. The target platform is fixed when the compiler is built (the macros
  \<^verbatim>\<open>LINUX\<close>, \<^verbatim>\<open>MACOS\<close> and \<^verbatim>\<open>WINDOWS\<close>), so it is a parameter of the functions that
  depend on it.
\<close>

datatype compileMode = executable | objectFile | otherMode

datatype optimisationLevel = o_none | o_1 | o_2 | o_3 | o_s | o42069

datatype platform = LINUX | MACOS | WINDOWS

record compileState =
  commandsArray :: commandsArray
  logLevel :: nat
  compileMode :: compileMode
  optimisationLevel :: optimisationLevel
  useStabs :: bool
  compilerErrors :: nat

section \<open>Diagnostics\<close>

text \<open>
  Modelled from the spec: the logger is not among the sources. A semantic error is a message
  at a primary line, optionally with a second line; reporting one hands it to the sink and
  increments the error counter of the compile state. The analyzers therefore run on a pair of
  the compile state and the diagnostics written so far. Debug messages depend on the log level
  only and are left out.
\<close>

record diagnostic =
  message :: string
  atLine :: int
  extraLine :: "int option"

type_synonym analysis = "compileState \<times> diagnostic list"

definition printSemanticError :: "string \<Rightarrow> int \<Rightarrow> analysis \<Rightarrow> analysis" where
  "printSemanticError msg ln s =
     ((fst s)\<lparr>compilerErrors := compilerErrors (fst s) + 1\<rparr>,
      snd s @ [\<lparr>message = msg, atLine = ln, extraLine = None\<rparr>])"

definition printSemanticErrorWithExtraLineNumber ::
  "string \<Rightarrow> int \<Rightarrow> int \<Rightarrow> analysis \<Rightarrow> analysis" where
  "printSemanticErrorWithExtraLineNumber msg ln originalDefinition s =
     ((fst s)\<lparr>compilerErrors := compilerErrors (fst s) + 1\<rparr>,
      snd s @ [\<lparr>message = msg, atLine = ln, extraLine = Some originalDefinition\<rparr>])"

definition commandsOf :: "analysis \<Rightarrow> parsedCommand list" where
  "commandsOf s = arrayPointer (commandsArray (fst s))"

section \<open>FunctionAnalyzer\<close>

text \<open>
  \<^verbatim>\<open>struct function\<close>. The source stores the line as \<^verbatim>\<open>size_t\<close> and casts it back to
  \<^verbatim>\<open>int\<close> when it reports it; the two casts cancel on every \<^verbatim>\<open>int\<close>, so the field
  holds the line itself.
\<close>

record function_desc =
  name :: string
  definedInLine :: int
  numberOfCommands :: nat

text \<open>
  The \<^verbatim>\<open>while\<close> loop of \<^verbatim>\<open>parseFunction\<close>: \<open>index\<close> runs from 1, \<open>functionEndIndex\<close>
  is the offset of the last return seen, 0 while none was seen. The loop ends at the end of
  the array or at the next declaration, where it reports a missing return.
\<close>

function parseFunction_scan :: "int \<Rightarrow> nat \<Rightarrow> nat \<Rightarrow> nat \<Rightarrow> analysis \<Rightarrow> nat \<times> analysis" where
  "parseFunction_scan functionDeclarationOpcode functionStartAtIndex index functionEndIndex s =
     (if functionStartAtIndex + index < length (commandsOf s) then
        (let parsedCommand = commandsOf s ! (functionStartAtIndex + index);
             opc = uint (opcode parsedCommand)
         in if opc = functionDeclarationOpcode then
              (functionEndIndex,
               if functionEndIndex = 0
               then printSemanticError
                      ''Expected a return statement, but got a new function definition''
                      (lineNum parsedCommand) s
               else s)
            else parseFunction_scan functionDeclarationOpcode functionStartAtIndex (index + 1)
                   (if functionDeclarationOpcode < opc \<and> opc \<le> functionDeclarationOpcode + 3
                    then index else functionEndIndex) s)
      else (functionEndIndex, s))"
  by pat_completeness auto
termination
  by (relation "measure (\<lambda>(d, start, index, e, s). length (commandsOf s) - (start + index))") auto

declare parseFunction_scan.simps [simp del]

definition parseFunction :: "analysis \<Rightarrow> nat \<Rightarrow> int \<Rightarrow> function_desc \<times> analysis" where
  "parseFunction s functionStartAtIndex functionDeclarationOpcode =
     (let functionStart = commandsOf s ! functionStartAtIndex;
          (functionEndIndex, s1) =
             parseFunction_scan functionDeclarationOpcode functionStartAtIndex 1 0 s;
          s2 = (if functionEndIndex = 0
                then printSemanticError ''No return statement found'' (lineNum functionStart) s1
                else s1)
      in (\<lparr>name = fst (parameters functionStart),
           definedInLine = lineNum functionStart,
           numberOfCommands = functionEndIndex\<rparr>, s2))"

text \<open>
  The cursor loop of \<^verbatim>\<open>checkFunctionValidity\<close>. The inner \<^verbatim>\<open>for\<close> loop and the outer
  \<^verbatim>\<open>while\<close> loop share the cursor \<open>commandArrayIndex\<close>: a command that is not a
  declaration is reported and skipped, a declaration is parsed and the cursor moves past the
  body it recorded. The descriptor array is allocated zeroed, one slot for each declaration
  counted, and filled from the front.
\<close>

function parseFunctions ::
  "int \<Rightarrow> nat \<Rightarrow> nat \<Rightarrow> function_desc list \<Rightarrow> analysis \<Rightarrow> function_desc list \<times> analysis" where
  "parseFunctions functionDeclarationOpcode commandArrayIndex functionArrayIndex functions s =
     (if commandArrayIndex < length (commandsOf s) then
        (if uint (opcode (commandsOf s ! commandArrayIndex)) \<noteq> functionDeclarationOpcode then
           parseFunctions functionDeclarationOpcode (commandArrayIndex + 1) functionArrayIndex
             functions
             (printSemanticError ''Statement does not belong to any function''
                (lineNum (commandsOf s ! commandArrayIndex)) s)
         else
           (let r = parseFunction s commandArrayIndex functionDeclarationOpcode
            in parseFunctions functionDeclarationOpcode
                 (commandArrayIndex + (numberOfCommands (fst r) + 1)) (functionArrayIndex + 1)
                 (functions[functionArrayIndex := fst r]) (snd r)))
      else (functions, s))"
  by pat_completeness auto
termination
proof (relation "measure (\<lambda>(d, i, k, fs, s). length (commandsOf s) - i)")
  have report: "commandsOf (printSemanticError msg ln s) = commandsOf s" for msg ln s
    by (simp add: commandsOf_def printSemanticError_def)
  have scan: "commandsOf (snd (parseFunction_scan d start index e s)) = commandsOf s"
    for d start index e s
    by (induction d start index e s rule: parseFunction_scan.induct)
       (subst parseFunction_scan.simps, simp add: Let_def report)
  have parse: "commandsOf (snd (parseFunction s i d)) = commandsOf s" for s i d
  proof -
    obtain e s1 where r: "parseFunction_scan d i (Suc 0) 0 s = (e, s1)"
      by (cases "parseFunction_scan d i (Suc 0) 0 s")
    with scan [of d i "Suc 0" 0 s] have "commandsOf s1 = commandsOf s" by simp
    then show ?thesis by (simp add: parseFunction_def Let_def r report)
  qed
  show "wf (measure (\<lambda>(d, i, k, fs, s). length (commandsOf s) - i))"
    by simp
  show "((d, i + 1, k, fs,
          printSemanticError ''Statement does not belong to any function''
            (lineNum (commandsOf s ! i)) s),
         d, i, k, fs, s) \<in> measure (\<lambda>(d, i, k, fs, s). length (commandsOf s) - i)"
    if "i < length (commandsOf s)" for d i k fs s
    using that by (simp add: report)
  show "((d, i + (numberOfCommands (fst r) + 1), k + 1, fs[k := fst r], snd r),
         d, i, k, fs, s) \<in> measure (\<lambda>(d, i, k, fs, s). length (commandsOf s) - i)"
    if "i < length (commandsOf s)" and "r = parseFunction s i d" for d i k fs s r
    using that by (simp add: parse)
qed

declare parseFunctions.simps [simp del]

text \<open>
  The name checks that follow the cursor loop: every descriptor is compared with the main
  symbol and with each later descriptor. Both loops run over the indices below the number of
  declarations counted, which is the length of the descriptor array.
\<close>

definition mainFuncName :: "platform \<Rightarrow> string" where
  "mainFuncName P = (if P = MACOS then ''_main'' else ''main'')"

definition checkDuplicates :: "function_desc list \<Rightarrow> nat \<Rightarrow> nat \<Rightarrow> analysis \<Rightarrow> analysis" where
  "checkDuplicates functions functionDefinitions i s =
     foldl (\<lambda>s j. if name (functions ! i) = name (functions ! j)
                    then printSemanticErrorWithExtraLineNumber ''Duplicate function definition''
                           (definedInLine (functions ! j)) (definedInLine (functions ! i)) s
                    else s)
       s [i + 1 ..< functionDefinitions]"

definition checkFunctionNames ::
  "platform \<Rightarrow> function_desc list \<Rightarrow> nat \<Rightarrow> analysis \<Rightarrow> bool \<times> analysis" where
  "checkFunctionNames P functions functionDefinitions s =
     foldl (\<lambda>(mainFunctionExists, s) i.
              (mainFunctionExists \<or> name (functions ! i) = mainFuncName P,
               checkDuplicates functions functionDefinitions i s))
       (False, s) [0 ..< functionDefinitions]"

definition checkFunctionValidity :: "platform \<Rightarrow> analysis \<Rightarrow> int \<Rightarrow> analysis" where
  "checkFunctionValidity P s functionDeclarationOpcode =
     (let functionDefinitions =
            length (filter (\<lambda>c. uint (opcode c) = functionDeclarationOpcode) (commandsOf s));
          calloc = replicate functionDefinitions
                     \<lparr>name = [], definedInLine = 0, numberOfCommands = 0\<rparr>;
          (functions, s1) = parseFunctions functionDeclarationOpcode 0 0 calloc s;
          (mainFunctionExists, s2) = checkFunctionNames P functions functionDefinitions s1
      in if compileMode (fst s2) = executable \<and> \<not> mainFunctionExists
         then printSemanticError
                ''An executable cannot be created if no main-function exists'' 1 s2
         else s2)"

section \<open>ComparisonAnalyzer\<close>

record comparison =
  parameter1 :: string
  parameter2 :: string
  cmpDefinedInLine :: int

record comparisonJumpLabel =
  parameter :: string
  labelDefinedInLine :: int

text \<open>
  The second traversal of \<^verbatim>\<open>checkWhoWouldWinValidity\<close> collects the comparisons and the
  jump labels in stream order; the first traversal only counts them to size the two arrays.
\<close>

definition collectComparisons :: "int \<Rightarrow> parsedCommand list \<Rightarrow> comparison list" where
  "collectComparisons whoWouldWinOpcode cmds =
     map (\<lambda>c. \<lparr>parameter1 = fst (parameters c), parameter2 = snd (parameters c),
                cmpDefinedInLine = lineNum c\<rparr>)
       (filter (\<lambda>c. uint (opcode c) = whoWouldWinOpcode) cmds)"

definition collectJumpLabels :: "int \<Rightarrow> parsedCommand list \<Rightarrow> comparisonJumpLabel list" where
  "collectJumpLabels whoWouldWinOpcode cmds =
     map (\<lambda>c. \<lparr>parameter = fst (parameters c), labelDefinedInLine = lineNum c\<rparr>)
       (filter (\<lambda>c. uint (opcode c) \<noteq> whoWouldWinOpcode \<and>
                     uint (opcode c) = whoWouldWinOpcode + 1) cmds)"

definition checkLabelDuplicates :: "comparisonJumpLabel list \<Rightarrow> analysis \<Rightarrow> analysis" where
  "checkLabelDuplicates comparisonJumpLabels s =
     foldl (\<lambda>s i.
        foldl (\<lambda>s j. if parameter (comparisonJumpLabels ! i) = parameter (comparisonJumpLabels ! j)
                       then printSemanticErrorWithExtraLineNumber
                              ''Comparison jump markers cannot be defined twice''
                              (labelDefinedInLine (comparisonJumpLabels ! j))
                              (labelDefinedInLine (comparisonJumpLabels ! i)) s
                       else s)
          s [i + 1 ..< length comparisonJumpLabels])
       s [0 ..< length comparisonJumpLabels]"

definition parametersDefined :: "comparisonJumpLabel list \<Rightarrow> comparison \<Rightarrow> bool \<times> bool" where
  "parametersDefined comparisonJumpLabels cmp =
     foldl (\<lambda>(parameter1Defined, parameter2Defined) j.
              (parameter1Defined \<or> parameter1 cmp = parameter (comparisonJumpLabels ! j),
               parameter2Defined \<or> parameter2 cmp = parameter (comparisonJumpLabels ! j)))
       (False, False) [0 ..< length comparisonJumpLabels]"

definition checkComparison :: "comparisonJumpLabel list \<Rightarrow> comparison \<Rightarrow> analysis \<Rightarrow> analysis" where
  "checkComparison comparisonJumpLabels cmp s =
     (let (parameter1Defined, parameter2Defined) = parametersDefined comparisonJumpLabels cmp;
          s1 = (if \<not> parameter1Defined
                then printSemanticError ''No comparison jump marker defined for first parameter''
                       (cmpDefinedInLine cmp) s
                else s)
      in if \<not> parameter2Defined
         then printSemanticError ''No comparison jump marker defined for second parameter''
                (cmpDefinedInLine cmp) s1
         else s1)"

definition checkWhoWouldWinValidity :: "analysis \<Rightarrow> int \<Rightarrow> analysis" where
  "checkWhoWouldWinValidity s whoWouldWinOpcode =
     (let comparisons = collectComparisons whoWouldWinOpcode (commandsOf s);
          comparisonJumpLabels = collectJumpLabels whoWouldWinOpcode (commandsOf s);
          s1 = checkLabelDuplicates comparisonJumpLabels s
      in foldl (\<lambda>s i. checkComparison comparisonJumpLabels (comparisons ! i) s)
           s1 [0 ..< length comparisons])"

text \<open>
  \<^verbatim>\<open>checkTheyreTheSamePictureValidity\<close>: \<open>jumpMarkerDefined\<close> holds the line of the last
  label seen and starts at 0; the second traversal runs only while it is still 0.
\<close>

definition samePictureMessage :: string where
  "samePictureMessage =
     ''\"they'' @ [CHR 0x27] @ ''re the same picture\" wasn'' @ [CHR 0x27] @ ''t defined anywhere''"

definition checkTheyreTheSamePictureValidity :: "analysis \<Rightarrow> int \<Rightarrow> analysis" where
  "checkTheyreTheSamePictureValidity s comparisonOpcode =
     (let jumpMarkerDefined =
            foldl (\<lambda>m c. if uint (opcode c) = comparisonOpcode + 1 then lineNum c else m)
              0 (commandsOf s)
      in if jumpMarkerDefined = 0
         then foldl (\<lambda>s c. if uint (opcode c) = comparisonOpcode
                            then printSemanticError samePictureMessage (lineNum c) s
                            else s)
                s (commandsOf s)
         else s)"

section \<open>Translator\<close>

text \<open>
  The command table \<^verbatim>\<open>commandList\<close> and the version string are defined outside these
  sources; the translator takes the table as a parameter, a function from the opcode to its
  entry. Reads outside the command array and reads outside the two parameter slots of a
  command are faults of the translator; every function below that can run into one returns
  either a fault or its result. The output file is the string of everything written to it.
\<close>

datatype fault = CommandIndexOutOfBounds nat | ParameterIndexOutOfBounds nat

record translatorState =
  currentFunctionName :: "string option"
  DNLABEL :: "8 word"

definition TAB :: string where
  "TAB = [CHR 0x09]"

definition N_SO :: int where "N_SO = 100"

definition N_SLINE :: int where "N_SLINE = 68"

definition N_FUN :: int where "N_FUN = 36"

definition N_LBRAC :: int where "N_LBRAC = 192"

definition N_RBRAC :: int where "N_RBRAC = 224"

text \<open>The conversion \<^verbatim>\<open>%d\<close> of \<^verbatim>\<open>fprintf\<close>: a decimal numeral, with a sign when negative.\<close>

function decimal :: "nat \<Rightarrow> string" where
  "decimal n = (if n < 10 then [''0123456789'' ! n]
                else decimal (n div 10) @ [''0123456789'' ! (n mod 10)])"
  by pat_completeness auto
termination
  by (relation "measure id") auto

declare decimal.simps [simp del]

definition printf_d :: "int \<Rightarrow> string" where
  "printf_d i = (if i < 0 then ''-'' @ decimal (nat (- i)) else decimal (nat i))"

text \<open>
  The external inputs of \<^verbatim>\<open>writeToFile\<close>: the version string of the compiler, the text
  that \<^verbatim>\<open>asctime\<close> returns for the local time, and the working directory.
\<close>

record environment =
  version_string :: string
  asctime :: string
  getcwd :: string

definition commandAt :: "compileState \<Rightarrow> nat \<Rightarrow> fault + parsedCommand" where
  "commandAt cs i =
     (if i < arraySize (commandsArray cs) then Inr (arrayPointer (commandsArray cs) ! i)
      else Inl (CommandIndexOutOfBounds i))"

definition parameterAt :: "parsedCommand \<Rightarrow> nat \<Rightarrow> fault + string" where
  "parameterAt pc i =
     (if i = 0 then Inr (fst (parameters pc))
      else if i = 1 then Inr (snd (parameters pc))
      else Inl (ParameterIndexOutOfBounds i))"

subsection \<open>STABS directives\<close>

definition stabs_writeFileInfo :: "environment \<Rightarrow> string \<Rightarrow> string" where
  "stabs_writeFileInfo env inputFileString =
     (if (case inputFileString of [] \<Rightarrow> False | c # _ \<Rightarrow> c = CHR ''/'')
      then ''.stabs \"'' @ inputFileString @ ''\", '' @ printf_d N_SO @ '', 0, 0, .Ltext0\<newline>''
      else ''.stabs \"'' @ getcwd env @ ''/'' @ inputFileString @ ''\", '' @ printf_d N_SO @
           '', 0, 0, .Ltext0\<newline>'')"

definition stabs_ignore :: "(8 word \<Rightarrow> command) \<Rightarrow> 8 word \<Rightarrow> bool" where
  "stabs_ignore commandList opc \<longleftrightarrow> translationPattern (commandList opc) = ''int3''"

definition stabs_writeFunctionInfo :: "string \<Rightarrow> string" where
  "stabs_writeFunctionInfo functionName =
     ''.stabs \"'' @ functionName @ '':F1\", '' @ printf_d N_FUN @ '', 0, 0, '' @ functionName @
       ''\<newline>'' @
     ''.stabn '' @ printf_d N_LBRAC @ '', 0, 0, '' @ functionName @ ''\<newline>'' @
     ''.stabn '' @ printf_d N_RBRAC @ '', 0, 0, .Lret_'' @ functionName @ ''\<newline>''"

text \<open>
  The current function name is a null pointer until the first declaration is translated; the
  C library prints a null pointer under \<^verbatim>\<open>%s\<close> as \<^verbatim>\<open>(null)\<close>, and the translation goes on.
\<close>

definition stabs_writeFunctionEndLabel :: "translatorState \<Rightarrow> string" where
  "stabs_writeFunctionEndLabel translatorState =
     TAB @ ''.Lret_'' @
     (case currentFunctionName translatorState of
        None \<Rightarrow> ''(null)''
      | Some functionName \<Rightarrow> functionName) @
     '':\<newline>''"

definition stabs_writeLineLabel :: "parsedCommand \<Rightarrow> string" where
  "stabs_writeLineLabel parsedCommand =
     TAB @ ''.Lcmd_'' @ printf_d (lineNum parsedCommand) @ '':\<newline>''"

definition stabs_writeLineInfo :: "parsedCommand \<Rightarrow> string" where
  "stabs_writeLineInfo parsedCommand =
     TAB @ ''.stabn '' @ printf_d N_SLINE @ '', 0, '' @ printf_d (lineNum parsedCommand) @
       '', .Lcmd_'' @ printf_d (lineNum parsedCommand) @ ''\<newline>''"

subsection \<open>Translating one command\<close>

text \<open>
  The label block of \<^verbatim>\<open>translateToAssembly\<close>, run when STABS is on: a declaration sets the
  current function name, an ignored command prints the label of the command at
  \<open>index + 1\<close> and sets \<open>DNLABEL\<close>, any other command prints its own label unless
  \<open>DNLABEL\<close> is set, which it then clears.
\<close>

definition stabsLabel ::
  "(8 word \<Rightarrow> command) \<Rightarrow> compileState \<Rightarrow> translatorState \<Rightarrow> nat \<Rightarrow> parsedCommand
     \<Rightarrow> fault + string \<times> translatorState" where
  "stabsLabel commandList cs translatorState index parsedCommand =
     (if useStabs cs then
        (if opcode parsedCommand = 0 then
           Inr ([], translatorState\<lparr>currentFunctionName := Some (fst (parameters parsedCommand))\<rparr>)
         else if stabs_ignore commandList (opcode parsedCommand) then
           (case commandAt cs (index + 1) of
              Inl f \<Rightarrow> Inl f
            | Inr next \<Rightarrow> Inr (stabs_writeLineLabel next, translatorState\<lparr>DNLABEL := 1\<rparr>))
         else if DNLABEL translatorState = 0 then
           Inr (stabs_writeLineLabel parsedCommand, translatorState)
         else Inr ([], translatorState\<lparr>DNLABEL := 0\<rparr>))
      else Inr ([], translatorState))"

text \<open>
  The value of a C \<^verbatim>\<open>char\<close> in a comparison: signed, as on the x86-64 targets.
\<close>

definition charValue :: "char \<Rightarrow> int" where
  "charValue c = sint (of_char c :: 8 word)"

text \<open>
  The second loop over the translation pattern, which builds \<open>translatedLine\<close>. (The first
  loop only adds up the length of the buffer to allocate.) A character from \<^verbatim>\<open>'0'\<close> up to
  \<^verbatim>\<open>(char) usedParameters + 47\<close> stands for a parameter, in brackets when \<open>isPointer\<close>
  names it; any other character is appended as it is.
\<close>

fun expandPattern :: "command \<Rightarrow> parsedCommand \<Rightarrow> string \<Rightarrow> string \<Rightarrow> fault + string" where
  "expandPattern command parsedCommand [] translatedLine = Inr translatedLine"
| "expandPattern command parsedCommand (character # pattern) translatedLine =
     (if 48 \<le> charValue character \<and>
         charValue character \<le> sint (usedParameters command) + 47 then
        (case parameterAt parsedCommand (nat (charValue character - 48)) of
           Inl f \<Rightarrow> Inl f
         | Inr param \<Rightarrow>
             if uint (isPointer parsedCommand) = (charValue character - 48) + 1
             then expandPattern command parsedCommand pattern
                    (translatedLine @ ''['' @ param @ '']'')
             else expandPattern command parsedCommand pattern (translatedLine @ param))
      else expandPattern command parsedCommand pattern (translatedLine @ [character]))"

definition writeTranslatedLine :: "(8 word \<Rightarrow> command) \<Rightarrow> parsedCommand \<Rightarrow> fault + string" where
  "writeTranslatedLine commandList parsedCommand =
     (let command = commandList (opcode parsedCommand)
      in case expandPattern command parsedCommand (translationPattern command) [] of
           Inl f \<Rightarrow> Inl f
         | Inr translatedLine \<Rightarrow>
             Inr ((if opcode parsedCommand \<noteq> 0 then TAB else []) @ translatedLine @ ''\<newline>''))"

definition optimisationPadding :: "optimisationLevel \<Rightarrow> string" where
  "optimisationPadding level =
     (if level = o_1 then TAB @ ''nop\<newline>''
      else if level = o_2 then TAB @ ''push rax\<newline>'' @ TAB @ ''pop rax\<newline>''
      else if level = o_3 then
        TAB @ ''movups [rsp + 8], xmm0\<newline>'' @ TAB @ ''movups xmm0, [rsp + 8]\<newline>''
      else if level = o42069 then TAB @ ''xor rax, rax\<newline>'' @ TAB @ ''ret\<newline>''
      else [])"

text \<open>
  The closing block, run when STABS is on and the command is not a declaration: a return that
  ends the stream or precedes a declaration closes the function, and every command that is not
  ignored gets its line record.
\<close>

definition stabsLineInfo ::
  "(8 word \<Rightarrow> command) \<Rightarrow> compileState \<Rightarrow> translatorState \<Rightarrow> nat \<Rightarrow> parsedCommand
     \<Rightarrow> fault + string" where
  "stabsLineInfo commandList cs translatorState index parsedCommand =
     (if useStabs cs \<and> opcode parsedCommand \<noteq> 0 then
        (case (if 0 < uint (opcode parsedCommand) \<and> uint (opcode parsedCommand) \<le> 3 then
                 (if arraySize (commandsArray cs) = index + 1 then Inr True
                  else case commandAt cs (index + 1) of
                         Inl f \<Rightarrow> Inl f
                       | Inr next \<Rightarrow> Inr (opcode next = 0))
               else Inr False) of
           Inl f \<Rightarrow> Inl f
         | Inr endOfFunction \<Rightarrow>
             Inr ((if endOfFunction then stabs_writeFunctionEndLabel translatorState else []) @
                  (if stabs_ignore commandList (opcode parsedCommand) then []
                   else stabs_writeLineInfo parsedCommand)))
      else Inr [])"

definition translateToAssembly ::
  "(8 word \<Rightarrow> command) \<Rightarrow> compileState \<Rightarrow> translatorState \<Rightarrow> nat
     \<Rightarrow> fault + string \<times> translatorState" where
  "translateToAssembly commandList cs translatorState index =
     (case commandAt cs index of
        Inl f \<Rightarrow> Inl f
      | Inr parsedCommand \<Rightarrow>
          if opcode parsedCommand \<noteq> 0 \<and> optimisationLevel cs = o42069 then
            Inr ([], translatorState)
          else
            (case stabsLabel commandList cs translatorState index parsedCommand of
               Inl f \<Rightarrow> Inl f
             | Inr (label, translatorState') \<Rightarrow>
                 (case writeTranslatedLine commandList parsedCommand of
                    Inl f \<Rightarrow> Inl f
                  | Inr line \<Rightarrow>
                      (case stabsLineInfo commandList cs translatorState' index parsedCommand of
                         Inl f \<Rightarrow> Inl f
                       | Inr info \<Rightarrow>
                           Inr (label @ line @ optimisationPadding (optimisationLevel cs) @ info,
                                translatorState')))))"

subsection \<open>Writing the file\<close>

definition globalDirectives :: "parsedCommand list \<Rightarrow> string" where
  "globalDirectives cmds =
     concat (map (\<lambda>c. ''.global '' @ fst (parameters c) @ ''\<newline>'')
               (filter (\<lambda>c. opcode c = 0 \<and> translate c = 1) cmds))"

definition prelude :: "platform \<Rightarrow> environment \<Rightarrow> compileState \<Rightarrow> string \<Rightarrow> string" where
  "prelude P env cs inputFileString =
     ''#\<newline># Generated by the MemeAssembly compiler '' @ version_string env @ '' on '' @
       asctime env @ ''#\<newline>'' @
     ''.intel_syntax noprefix\<newline>'' @
     globalDirectives (arrayPointer (commandsArray cs)) @
     (if P = WINDOWS
      then ''\<newline>.extern GetStdHandle\<newline>.extern WriteFile\<newline>.extern ReadFile\<newline>''
      else []) @
     (if P = MACOS then ''\<newline>.data\<newline>'' @ TAB
      else ''\<newline>.section .data\<newline>'' @ TAB) @
     ''.LCharacter: .ascii \"a\"\<newline>'' @ TAB @
       ''.Ltmp64: .byte 0, 0, 0, 0, 0, 0, 0, 0\<newline>'' @
     (if useStabs cs then stabs_writeFileInfo env inputFileString else []) @
     (if P = MACOS then ''\<newline>\<newline>.text\<newline>'' @ TAB
      else ''\<newline>\<newline>.section .text\<newline>'') @
     ''\<newline>\<newline>.Ltext0:\<newline>''"

text \<open>
  The loop of \<^verbatim>\<open>writeToFile\<close> over the indices of the command array: the label of the
  confused-stonks jump goes out before the command at \<open>randomIndex\<close> is looked at, and only
  commands with \<open>translate = 1\<close> are translated.
\<close>

fun translateCommands ::
  "(8 word \<Rightarrow> command) \<Rightarrow> compileState \<Rightarrow> translatorState \<Rightarrow> nat list \<Rightarrow> fault + string" where
  "translateCommands commandList cs translatorState [] = Inr []"
| "translateCommands commandList cs translatorState (i # indices) =
     (let confusedStonks =
            (if i = randomIndex (commandsArray cs) then TAB @ ''.LConfusedStonks: '' else [])
      in if translate (arrayPointer (commandsArray cs) ! i) = 1 then
           (case translateToAssembly commandList cs translatorState i of
              Inl f \<Rightarrow> Inl f
            | Inr (out, translatorState') \<Rightarrow>
                (case translateCommands commandList cs translatorState' indices of
                   Inl f \<Rightarrow> Inl f
                 | Inr rest \<Rightarrow> Inr (confusedStonks @ out @ rest)))
         else
           (case translateCommands commandList cs translatorState indices of
              Inl f \<Rightarrow> Inl f
            | Inr rest \<Rightarrow> Inr (confusedStonks @ rest)))"

text \<open>The two runtime helpers, through the Windows API or through system calls.\<close>

definition writechar_windows :: string where
  "writechar_windows =
     ''\<newline>\<newline>writechar:\<newline>'' @ TAB @ ''push rcx\<newline>'' @ TAB @
     ''push rax\<newline>'' @ TAB @ ''push rdx\<newline>'' @ TAB @ ''push r8\<newline>'' @
     TAB @ ''push r9\<newline>'' @ TAB @ ''sub rsp, 32\<newline>'' @ TAB @
     ''mov rcx, -11\<newline>'' @ TAB @ ''call GetStdHandle\<newline>'' @ TAB @
     ''mov rcx, rax\<newline>'' @ TAB @ ''lea rdx, [rip + .LCharacter]\<newline>'' @ TAB @
     ''mov r8, 1\<newline>'' @ TAB @ ''lea r9, [rip + .Ltmp64]\<newline>'' @ TAB @
     ''mov QWORD PTR [rsp + 32], 0\<newline>'' @ TAB @ ''call WriteFile\<newline>'' @ TAB @
     ''add rsp, 32\<newline>'' @ TAB @ ''pop r9\<newline>'' @ TAB @ ''pop r8\<newline>'' @
     TAB @ ''pop rdx\<newline>'' @ TAB @ ''pop rax\<newline>'' @ TAB @
     ''pop rcx\<newline>'' @ TAB @ ''ret\<newline>''"

definition readchar_windows :: string where
  "readchar_windows =
     ''\<newline>\<newline>readchar:\<newline>'' @ TAB @ ''push rcx\<newline>'' @ TAB @
     ''push rax\<newline>'' @ TAB @ ''push rdx\<newline>'' @ TAB @ ''push r8\<newline>'' @
     TAB @ ''push r9\<newline>'' @ TAB @ ''sub rsp, 32\<newline>'' @ TAB @
     ''mov rcx, -10\<newline>'' @ TAB @ ''call GetStdHandle\<newline>'' @ TAB @
     ''mov rcx, rax\<newline>'' @ TAB @ ''lea rdx, [rip + .LCharacter]\<newline>'' @ TAB @
     ''mov r8, 1\<newline>'' @ TAB @ ''lea r9, [rip + .Ltmp64]\<newline>'' @ TAB @
     ''mov QWORD PTR [rsp + 32], 0\<newline>'' @ TAB @ ''call ReadFile\<newline>'' @ TAB @
     ''add rsp, 32\<newline>'' @ TAB @ ''pop r9\<newline>'' @ TAB @ ''pop r8\<newline>'' @
     TAB @ ''pop rdx\<newline>'' @ TAB @ ''pop rax\<newline>'' @ TAB @
     ''pop rcx\<newline>'' @ TAB @ ''ret\<newline>''"

definition writechar_syscall :: "platform \<Rightarrow> string" where
  "writechar_syscall P =
     ''\<newline>\<newline>writechar:\<newline>'' @ TAB @ ''push rcx\<newline>'' @ TAB @
     ''push r11\<newline>'' @ TAB @ ''push rax\<newline>'' @ TAB @ ''push rdi\<newline>'' @
     TAB @ ''push rsi\<newline>'' @ TAB @ ''push rdx\<newline>'' @ TAB @
     ''mov rdx, 1\<newline>'' @ TAB @ ''lea rsi, [rip + .LCharacter]\<newline>'' @ TAB @
     (if P = LINUX then ''mov rax, 1\<newline>'' @ TAB else ''mov rax, 0x2000004\<newline>'' @ TAB) @
     ''syscall\<newline>'' @ TAB @ ''pop rdx\<newline>'' @ TAB @ ''pop rsi\<newline>'' @
     TAB @ ''pop rdi\<newline>'' @ TAB @ ''pop rax\<newline>'' @ TAB @
     ''pop r11\<newline>'' @ TAB @ ''pop rcx\<newline>'' @ TAB @ ''\<newline>'' @ TAB @
     ''ret\<newline>''"

definition readchar_syscall :: "platform \<Rightarrow> string" where
  "readchar_syscall P =
     ''\<newline>\<newline>readchar:\<newline>'' @ TAB @ ''push rcx\<newline>'' @ TAB @
     ''push r11\<newline>'' @ TAB @ ''push rax\<newline>'' @ TAB @ ''push rdi\<newline>'' @
     TAB @ ''push rsi\<newline>'' @ TAB @ ''push rdx\<newline>\<newline>'' @ TAB @
     ''mov rdx, 1\<newline>'' @ TAB @ ''lea rsi, [rip + .LCharacter]\<newline>'' @ TAB @
     ''mov rdi, 0\<newline>'' @ TAB @
     (if P = LINUX then ''mov rax, 0\<newline>'' @ TAB else ''mov rax, 0x2000003\<newline>'' @ TAB) @
     ''syscall\<newline>\<newline>'' @ TAB @ ''pop rdx\<newline>'' @ TAB @
     ''pop rsi\<newline>'' @ TAB @ ''pop rdi\<newline>'' @ TAB @ ''pop rax\<newline>'' @
     TAB @ ''pop r11\<newline>'' @ TAB @ ''pop rcx\<newline>'' @ TAB @ ''ret\<newline>''"

definition runtimeHelpers :: "platform \<Rightarrow> string" where
  "runtimeHelpers P =
     (if P = WINDOWS then writechar_windows @ readchar_windows
      else writechar_syscall P @ readchar_syscall P)"

definition stabsEpilogue :: "parsedCommand list \<Rightarrow> string" where
  "stabsEpilogue cmds =
     concat (map (\<lambda>c. stabs_writeFunctionInfo (fst (parameters c)))
               (filter (\<lambda>c. opcode c = 0 \<and> translate c = 1) cmds)) @
     ''\<newline>.LEOF:\<newline>'' @
     ''.stabs \"\", '' @ printf_d N_SO @ '', 0, 0, .LEOF\<newline>''"

definition writeToFile ::
  "platform \<Rightarrow> environment \<Rightarrow> (8 word \<Rightarrow> command) \<Rightarrow> compileState \<Rightarrow> string \<Rightarrow> fault + string" where
  "writeToFile P env commandList cs inputFileString =
     (case translateCommands commandList cs \<lparr>currentFunctionName = None, DNLABEL = 0\<rparr>
             [0 ..< arraySize (commandsArray cs)] of
        Inl f \<Rightarrow> Inl f
      | Inr body \<Rightarrow>
          Inr (prelude P env cs inputFileString @ body @
               (if optimisationLevel cs \<noteq> o42069 then runtimeHelpers P else []) @
               (if useStabs cs then stabsEpilogue (arrayPointer (commandsArray cs)) else []) @
               (if optimisationLevel cs = o_s then ''.align 536870912\<newline>'' else [])))"

section \<open>Notions used in the statements\<close>

subsection \<open>Analysis states\<close>

text \<open>
  Two analysis states agree on everything but the error counter and the diagnostics written.
\<close>

definition unchangedButErrors :: "analysis \<Rightarrow> analysis \<Rightarrow> bool" where
  "unchangedButErrors s' s \<longleftrightarrow>
     commandsArray (fst s') = commandsArray (fst s) \<and>
     logLevel (fst s') = logLevel (fst s) \<and>
     compileMode (fst s') = compileMode (fst s) \<and>
     optimisationLevel (fst s') = optimisationLevel (fst s) \<and>
     useStabs (fst s') = useStabs (fst s)"

text \<open>A later analysis state: the same commands, and more diagnostics at the end.\<close>

definition extends :: "analysis \<Rightarrow> analysis \<Rightarrow> bool" where
  "extends t s \<longleftrightarrow> commandsOf t = commandsOf s \<and> (\<exists>B. snd t = snd s @ B)"

subsection \<open>Stretches of a function\<close>

text \<open>
  The two opcode families the analyzer tells apart: the declaration opcode and the three
  return opcodes that follow it.
\<close>

definition isDeclaration :: "int \<Rightarrow> parsedCommand \<Rightarrow> bool" where
  "isDeclaration d c \<longleftrightarrow> uint (opcode c) = d"

definition isReturn :: "int \<Rightarrow> parsedCommand \<Rightarrow> bool" where
  "isReturn d c \<longleftrightarrow> d < uint (opcode c) \<and> uint (opcode c) \<le> d + 3"

text \<open>
  The offset that the scan records over a stretch of commands without a declaration: the
  offset of the last return in it, or the value it started with.
\<close>

fun lastReturn :: "int \<Rightarrow> parsedCommand list \<Rightarrow> nat \<Rightarrow> nat \<Rightarrow> nat" where
  "lastReturn d [] index e = e"
| "lastReturn d (c # cs) index e = lastReturn d cs (index + 1) (if isReturn d c then index else e)"

text \<open>The reports of the inner loop of the cursor over a run of floating statements.\<close>

definition reportFloating :: "parsedCommand list \<Rightarrow> analysis \<Rightarrow> analysis" where
  "reportFloating xs s =
     foldl (\<lambda>s c. printSemanticError ''Statement does not belong to any function'' (lineNum c) s)
       s xs"

subsection \<open>The expansion in the words of the specification\<close>

text \<open>
  The expansion in the words of the specification: a character of the template is a
  placeholder when it is a digit from \<^verbatim>\<open>'0'\<close> up to, and not including,
  \<^verbatim>\<open>'0' + usedParameters\<close>; the placeholder \<open>c\<close> stands for the parameter at index
  \<^verbatim>\<open>c - '0'\<close>, in square brackets exactly when \<open>isPointer\<close> is that index plus one; every
  other character stands for itself. The line is the expansion of the whole template, after a
  tab unless the opcode is 0, and ends with a newline.
\<close>

definition parameterOf :: "parsedCommand \<Rightarrow> int \<Rightarrow> string" where
  "parameterOf pc i = (if i = 0 then fst (parameters pc) else snd (parameters pc))"

definition substituteCharacter :: "command \<Rightarrow> parsedCommand \<Rightarrow> char \<Rightarrow> string" where
  "substituteCharacter command pc c =
     (if (of_char (CHR ''0'') :: int) \<le> of_char c \<and>
         (of_char c :: int) < of_char (CHR ''0'') + uint (usedParameters command)
      then if uint (isPointer pc) = (of_char c - of_char (CHR ''0'')) + 1
           then ''['' @ parameterOf pc (of_char c - of_char (CHR ''0'')) @ '']''
           else parameterOf pc (of_char c - of_char (CHR ''0''))
      else [c])"

definition specLine :: "(8 word \<Rightarrow> command) \<Rightarrow> parsedCommand \<Rightarrow> string" where
  "specLine commandList pc =
     (if opcode pc \<noteq> 0 then TAB else []) @
     concat (map (substituteCharacter (commandList (opcode pc)) pc)
               (translationPattern (commandList (opcode pc)))) @
     ''\<newline>''"

subsection \<open>The translator state inside the loop\<close>

text \<open>
  The translator state with which the loop of \<^verbatim>\<open>writeToFile\<close> reaches the command after the
  given indices: every translated command hands its state on. It is used for runs without a
  fault only.
\<close>

fun stateAfter ::
  "(8 word \<Rightarrow> command) \<Rightarrow> compileState \<Rightarrow> translatorState \<Rightarrow> nat list \<Rightarrow> translatorState" where
  "stateAfter commandList cs translatorState [] = translatorState"
| "stateAfter commandList cs translatorState (i # indices) =
     (if translate (arrayPointer (commandsArray cs) ! i) = 1 then
        (case translateToAssembly commandList cs translatorState i of
           Inl f \<Rightarrow> stateAfter commandList cs translatorState indices
         | Inr (out, translatorState') \<Rightarrow> stateAfter commandList cs translatorState' indices)
      else stateAfter commandList cs translatorState indices)"


section \<open>Example streams and an example command table\<close>

text \<open>Concrete commands and states on which the theorems below are instantiated.\<close>

definition mkCommand :: "8 word \<Rightarrow> string \<Rightarrow> string \<Rightarrow> int \<Rightarrow> parsedCommand" where
  "mkCommand opc p0 p1 ln =
     \<lparr>opcode = opc, parameters = (p0, p1), isPointer = 0, lineNum = ln, translate = 1\<rparr>"

definition mkState :: "parsedCommand list \<Rightarrow> analysis" where
  "mkState cmds =
     (\<lparr>commandsArray = \<lparr>arrayPointer = cmds, randomIndex = 0\<rparr>, logLevel = 0,
       compileMode = objectFile, optimisationLevel = o_none, useStabs = False,
       compilerErrors = 0\<rparr>, [])"

text \<open>
  The command table is an input of the translator. The theorems below hold for every table;
  this small one serves the concrete runs: a declaration, a return, an exit, a move with two
  parameters and a breakpoint.
\<close>

definition exampleCommandList :: "8 word \<Rightarrow> command" where
  "exampleCommandList opc =
     (if opc = 0 then \<lparr>usedParameters = 1, translationPattern = ''0:''\<rparr>
      else if opc = 1 then
        \<lparr>usedParameters = 1, translationPattern = ''mov rax, 0\<newline>'' @ TAB @ ''ret''\<rparr>
      else if opc = 2 then
        \<lparr>usedParameters = 0,
         translationPattern =
           ''mov rax, 60\<newline>'' @ TAB @ ''mov rdi, 0\<newline>'' @ TAB @ ''syscall''\<rparr>
      else if opc = 5 then \<lparr>usedParameters = 2, translationPattern = ''mov 0, 1''\<rparr>
      else if opc = 6 then \<lparr>usedParameters = 0, translationPattern = ''int3''\<rparr>
      else \<lparr>usedParameters = 0, translationPattern = ''nop''\<rparr>)"

definition exampleEnvironment :: environment where
  "exampleEnvironment =
     \<lparr>version_string = ''v1'', asctime = ''Thu Jan  1 00:00:00 1970\<newline>'',
      getcwd = ''/home''\<rparr>"

definition exampleState ::
  "parsedCommand list \<Rightarrow> nat \<Rightarrow> optimisationLevel \<Rightarrow> bool \<Rightarrow> compileState" where
  "exampleState cmds r level stabs =
     \<lparr>commandsArray = \<lparr>arrayPointer = cmds, randomIndex = r\<rparr>, logLevel = 0,
      compileMode = objectFile, optimisationLevel = level, useStabs = stabs,
      compilerErrors = 0\<rparr>"

section \<open>The analyzers read the command stream only\<close>

lemma commandsOf_printSemanticError [simp]:
  "commandsOf (printSemanticError msg ln s) = commandsOf s"
  by (simp add: commandsOf_def printSemanticError_def)

lemma commandsOf_printSemanticErrorWithExtraLineNumber [simp]:
  "commandsOf (printSemanticErrorWithExtraLineNumber msg ln l2 s) = commandsOf s"
  by (simp add: commandsOf_def printSemanticErrorWithExtraLineNumber_def)

lemma commandsOf_parseFunction_scan:
  "commandsOf (snd (parseFunction_scan d start index e s)) = commandsOf s"
  by (induction d start index e s rule: parseFunction_scan.induct)
     (subst parseFunction_scan.simps, simp add: Let_def)

lemma commandsOf_parseFunction [simp]:
  "commandsOf (snd (parseFunction s i d)) = commandsOf s"
  by (simp add: parseFunction_def Let_def split: prod.splits)
     (metis commandsOf_parseFunction_scan snd_conv)

lemma commandsOf_mkState [simp]: "commandsOf (mkState cmds) = cmds"
  by (simp add: commandsOf_def mkState_def)

lemma snd_mkState [simp]: "snd (mkState cmds) = []"
  by (simp add: mkState_def)

section \<open>What the analyzers report\<close>

lemma snd_printSemanticError [simp]:
  "snd (printSemanticError msg ln s) = snd s @ [\<lparr>message = msg, atLine = ln, extraLine = None\<rparr>]"
  by (simp add: printSemanticError_def)

lemma snd_printSemanticErrorWithExtraLineNumber [simp]:
  "snd (printSemanticErrorWithExtraLineNumber msg ln l2 s) =
     snd s @ [\<lparr>message = msg, atLine = ln, extraLine = Some l2\<rparr>]"
  by (simp add: printSemanticErrorWithExtraLineNumber_def)

lemma foldl_report_filter:
  "snd (foldl (\<lambda>s c. if Q c then printSemanticError msg (lineNum c) s else s) s cmds) =
     snd s @ map (\<lambda>c. \<lparr>message = msg, atLine = lineNum c, extraLine = None\<rparr>) (filter Q cmds)"
  by (induction cmds arbitrary: s) simp_all

lemma last_label_line:
  "foldl (\<lambda>m c. if L c then lineNum c else m) m0 cmds =
     (if \<exists>c \<in> set cmds. L c then lineNum (last (filter L cmds)) else m0)"
  by (induction cmds arbitrary: m0) (auto simp: filter_empty_conv)

lemma jumpMarker_zero_iff:
  assumes "\<forall>c \<in> set cmds. 1 \<le> lineNum c"
  shows "foldl (\<lambda>m c. if L c then lineNum c else m) 0 cmds = 0 \<longleftrightarrow> \<not> (\<exists>c \<in> set cmds. L c)"
proof (cases "\<exists>c \<in> set cmds. L c")
  case True
  then have "filter L cmds \<noteq> []" by (simp add: filter_empty_conv)
  then have "last (filter L cmds) \<in> set (filter L cmds)" by (rule last_in_set)
  then have "last (filter L cmds) \<in> set cmds" by simp
  with assms have "1 \<le> lineNum (last (filter L cmds))" by blast
  with True show ?thesis by (simp add: last_label_line)
next
  case False
  then show ?thesis by (simp add: last_label_line)
qed

lemma parametersDefined_flags:
  "foldl (\<lambda>(d1, d2) j. (d1 \<or> p1 = parameter (ls ! j), d2 \<or> p2 = parameter (ls ! j)))
     (a, b) [0 ..< n] =
   (a \<or> (\<exists>j < n. p1 = parameter (ls ! j)), b \<or> (\<exists>j < n. p2 = parameter (ls ! j)))"
  by (induction n) (auto simp: less_Suc_eq)

lemma parametersDefined_eq:
  "parametersDefined ls cmp =
     (parameter1 cmp \<in> parameter ` set ls, parameter2 cmp \<in> parameter ` set ls)"
  unfolding parametersDefined_def parametersDefined_flags
  by (auto simp: set_conv_nth)

lemma snd_checkComparison:
  "snd (checkComparison ls cmp s) =
     snd s @
     (if parameter1 cmp \<in> parameter ` set ls then []
      else [\<lparr>message = ''No comparison jump marker defined for first parameter'',
             atLine = cmpDefinedInLine cmp, extraLine = None\<rparr>]) @
     (if parameter2 cmp \<in> parameter ` set ls then []
      else [\<lparr>message = ''No comparison jump marker defined for second parameter'',
             atLine = cmpDefinedInLine cmp, extraLine = None\<rparr>])"
  by (simp add: checkComparison_def parametersDefined_eq)

lemma foldl_index_map:
  "foldl (\<lambda>s i. f (xs ! i) s) s [0 ..< length xs] = foldl (\<lambda>s x. f x s) s xs"
proof (induction xs arbitrary: s rule: rev_induct)
  case Nil
  then show ?case by simp
next
  case (snoc x xs)
  have "foldl (\<lambda>s i. f ((xs @ [x]) ! i) s) s [0 ..< length xs] =
        foldl (\<lambda>s i. f (xs ! i) s) s [0 ..< length xs]"
    by (rule foldl_cong) (auto simp: nth_append)
  with snoc show ?case by simp
qed

lemma snd_foldl_checkComparison:
  "snd (foldl (\<lambda>s c. checkComparison ls c s) s cs) =
     snd s @ concat (map (\<lambda>c. snd (checkComparison ls c (fst s, []))) cs)"
proof (induction cs arbitrary: s)
  case Nil
  then show ?case by simp
next
  case (Cons c cs)
  show ?case by (simp add: Cons.IH snd_checkComparison)
qed

lemma foldl_invariant:
  assumes "R t" and "\<And>t x. R t \<Longrightarrow> R (f t x)"
  shows "R (foldl f t xs)"
  using assms(1) by (induction xs arbitrary: t) (simp_all add: assms(2))

lemma checkLabelDuplicates_messages:
  "\<exists>dups. snd (checkLabelDuplicates ls s) = snd s @ dups \<and>
     (\<forall>d \<in> set dups. message d = ''Comparison jump markers cannot be defined twice'')"
  unfolding checkLabelDuplicates_def
  by (rule foldl_invariant, simp, rule foldl_invariant, assumption) auto

lemma set_collectJumpLabels:
  "parameter ` set (collectJumpLabels w cmds) =
     {fst (parameters l) | l. l \<in> set cmds \<and> uint (opcode l) = w + 1}"
proof -
  have "(uint (opcode l) \<noteq> w \<and> uint (opcode l) = w + 1) = (uint (opcode l) = w + 1)"
    for l :: parsedCommand by auto
  then show ?thesis by (auto simp: collectJumpLabels_def image_iff)
qed

subsection \<open>The same-picture family\<close>

text \<open>
  C7: \<^verbatim>\<open>checkTheyreTheSamePictureValidity\<close> reports the missing-label message once for each
  occurrence of the compare opcode, at that occurrence's line, exactly when the label opcode
  (compare opcode plus one) occurs nowhere in the stream; with one label or several it reports
  nothing. Line numbers are 1-based, as the data model of a command says.
\<close>

theorem same_picture_diagnostics:
  assumes "\<forall>c \<in> set (commandsOf s). 1 \<le> lineNum c"
  shows "snd (checkTheyreTheSamePictureValidity s comparisonOpcode) =
           snd s @
           (if \<exists>c \<in> set (commandsOf s). uint (opcode c) = comparisonOpcode + 1 then []
            else map (\<lambda>c. \<lparr>message = samePictureMessage, atLine = lineNum c, extraLine = None\<rparr>)
                   (filter (\<lambda>c. uint (opcode c) = comparisonOpcode) (commandsOf s)))"
  using jumpMarker_zero_iff [OF assms, of "\<lambda>c. uint (opcode c) = comparisonOpcode + 1"]
  by (simp add: checkTheyreTheSamePictureValidity_def foldl_report_filter)

theorem same_picture_diagnostics_witness:
  "snd (checkTheyreTheSamePictureValidity
          (mkState [mkCommand 20 [] [] 2, mkCommand 7 [] [] 3, mkCommand 20 [] [] 4]) 20) =
     [\<lparr>message = samePictureMessage, atLine = 2, extraLine = None\<rparr>,
      \<lparr>message = samePictureMessage, atLine = 4, extraLine = None\<rparr>] \<and>
   snd (checkTheyreTheSamePictureValidity
          (mkState [mkCommand 20 [] [] 2, mkCommand 21 [] [] 3, mkCommand 21 [] [] 4]) 20) = []"
proof -
  have h1: "\<forall>c \<in> set (commandsOf (mkState [mkCommand 20 [] [] 2, mkCommand 7 [] [] 3, mkCommand 20 [] [] 4])).
      1 \<le> lineNum c"
    by (simp add: mkCommand_def)
  have h2: "\<forall>c \<in> set (commandsOf (mkState [mkCommand 20 [] [] 2, mkCommand 21 [] [] 3, mkCommand 21 [] [] 4])).
      1 \<le> lineNum c"
    by (simp add: mkCommand_def)
  show ?thesis
    using same_picture_diagnostics [OF h1, of 20] same_picture_diagnostics [OF h2, of 20]
    by (simp add: mkCommand_def)
qed

subsection \<open>The who-would-win family\<close>

text \<open>
  C8: after the duplicate-label reports, \<^verbatim>\<open>checkWhoWouldWinValidity\<close> goes through the
  comparisons in stream order and reports, at the comparison's line, a missing marker for the
  first parameter exactly when no label declaration carries that parameter, and independently
  a missing marker for the second parameter; one comparison can draw both reports.
\<close>

theorem who_would_win_diagnostics:
  "\<exists>dups.
     snd (checkWhoWouldWinValidity s whoWouldWinOpcode) =
       snd s @ dups @
       concat (map (\<lambda>c.
          (if \<exists>l \<in> set (commandsOf s). uint (opcode l) = whoWouldWinOpcode + 1 \<and>
                 fst (parameters l) = fst (parameters c)
           then []
           else [\<lparr>message = ''No comparison jump marker defined for first parameter'',
                  atLine = lineNum c, extraLine = None\<rparr>]) @
          (if \<exists>l \<in> set (commandsOf s). uint (opcode l) = whoWouldWinOpcode + 1 \<and>
                 fst (parameters l) = snd (parameters c)
           then []
           else [\<lparr>message = ''No comparison jump marker defined for second parameter'',
                  atLine = lineNum c, extraLine = None\<rparr>]))
         (filter (\<lambda>c. uint (opcode c) = whoWouldWinOpcode) (commandsOf s))) \<and>
     (\<forall>d \<in> set dups. message d = ''Comparison jump markers cannot be defined twice'')"
proof -
  let ?ls = "collectJumpLabels whoWouldWinOpcode (commandsOf s)"
  obtain dups where dups: "snd (checkLabelDuplicates ?ls s) = snd s @ dups"
    "\<forall>d \<in> set dups. message d = ''Comparison jump markers cannot be defined twice''"
    using checkLabelDuplicates_messages by blast
  have mem: "x \<in> parameter ` set ?ls \<longleftrightarrow>
     (\<exists>l \<in> set (commandsOf s). uint (opcode l) = whoWouldWinOpcode + 1 \<and> fst (parameters l) = x)"
    for x unfolding set_collectJumpLabels by auto
  have "snd (checkWhoWouldWinValidity s whoWouldWinOpcode) =
        snd s @ dups @ concat (map (\<lambda>c. snd (checkComparison ?ls c (fst (checkLabelDuplicates ?ls s), [])))
           (collectComparisons whoWouldWinOpcode (commandsOf s)))"
    by (simp add: checkWhoWouldWinValidity_def Let_def foldl_index_map snd_foldl_checkComparison dups(1))
  also have "concat (map (\<lambda>c. snd (checkComparison ?ls c (fst (checkLabelDuplicates ?ls s), [])))
           (collectComparisons whoWouldWinOpcode (commandsOf s))) =
      concat (map (\<lambda>c.
          (if \<exists>l \<in> set (commandsOf s). uint (opcode l) = whoWouldWinOpcode + 1 \<and>
                 fst (parameters l) = fst (parameters c)
           then []
           else [\<lparr>message = ''No comparison jump marker defined for first parameter'',
                  atLine = lineNum c, extraLine = None\<rparr>]) @
          (if \<exists>l \<in> set (commandsOf s). uint (opcode l) = whoWouldWinOpcode + 1 \<and>
                 fst (parameters l) = snd (parameters c)
           then []
           else [\<lparr>message = ''No comparison jump marker defined for second parameter'',
                  atLine = lineNum c, extraLine = None\<rparr>]))
         (filter (\<lambda>c. uint (opcode c) = whoWouldWinOpcode) (commandsOf s)))"
    by (simp add: collectComparisons_def snd_checkComparison mem comp_def cong: if_cong)
  finally show ?thesis using dups(2) by blast
qed

theorem who_would_win_diagnostics_witness:
  "\<exists>dups.
     snd (checkWhoWouldWinValidity
            (mkState [mkCommand 10 ''x'' ''y'' 2, mkCommand 11 ''x'' [] 3, mkCommand 10 ''a'' ''b'' 4])
            10) =
       dups @
       [\<lparr>message = ''No comparison jump marker defined for second parameter'',
         atLine = 2, extraLine = None\<rparr>,
        \<lparr>message = ''No comparison jump marker defined for first parameter'',
         atLine = 4, extraLine = None\<rparr>,
        \<lparr>message = ''No comparison jump marker defined for second parameter'',
         atLine = 4, extraLine = None\<rparr>]"
  using who_would_win_diagnostics
          [of "mkState [mkCommand 10 ''x'' ''y'' 2, mkCommand 11 ''x'' [] 3, mkCommand 10 ''a'' ''b'' 4]" 10]
  by (auto simp add: mkCommand_def)

section \<open>The analyzers write nothing but diagnostics\<close>

lemma unchanged_refl [simp]: "unchangedButErrors s s"
  by (simp add: unchangedButErrors_def)

lemma unchanged_trans:
  "unchangedButErrors s2 s1 \<Longrightarrow> unchangedButErrors s1 s \<Longrightarrow> unchangedButErrors s2 s"
  by (simp add: unchangedButErrors_def)

lemma unchanged_printSemanticError [simp]:
  "unchangedButErrors (printSemanticError msg ln t) s = unchangedButErrors t s"
  by (simp add: unchangedButErrors_def printSemanticError_def)

lemma unchanged_printSemanticErrorWithExtraLineNumber [simp]:
  "unchangedButErrors (printSemanticErrorWithExtraLineNumber msg ln l2 t) s = unchangedButErrors t s"
  by (simp add: unchangedButErrors_def printSemanticErrorWithExtraLineNumber_def)

lemma unchanged_parseFunction_scan:
  "unchangedButErrors (snd (parseFunction_scan d start index e s)) s"
  by (induction d start index e s rule: parseFunction_scan.induct)
     (subst parseFunction_scan.simps, simp add: Let_def)

lemma unchanged_parseFunction: "unchangedButErrors (snd (parseFunction s i d)) s"
proof -
  obtain e s1 where r: "parseFunction_scan d i (Suc 0) 0 s = (e, s1)"
    by (cases "parseFunction_scan d i (Suc 0) 0 s")
  with unchanged_parseFunction_scan [of d i "Suc 0" 0 s] have "unchangedButErrors s1 s" by simp
  then show ?thesis by (simp add: parseFunction_def Let_def r)
qed

lemma unchanged_parseFunctions:
  "unchangedButErrors (snd (parseFunctions d i k fs s)) s"
proof (induction d i k fs s rule: parseFunctions.induct)
  case (1 d i k fs s)
  show ?case
  proof (cases "i < length (commandsOf s)")
    case False
    then show ?thesis by (subst parseFunctions.simps) simp
  next
    case inb: True
    show ?thesis
    proof (cases "uint (opcode (commandsOf s ! i)) \<noteq> d")
      case True
      from "1.IH"(1) [OF inb True] have
        "unchangedButErrors (snd (parseFunctions d (i + 1) k fs
            (printSemanticError ''Statement does not belong to any function''
               (lineNum (commandsOf s ! i)) s))) s"
        by (simp add: unchangedButErrors_def printSemanticError_def)
      with inb True show ?thesis by (subst parseFunctions.simps) simp
    next
      case False
      from "1.IH"(2) [OF inb False refl] unchanged_parseFunction [of s i d]
      have "unchangedButErrors (snd (parseFunctions d
               (i + (numberOfCommands (fst (parseFunction s i d)) + 1)) (k + 1)
               (fs[k := fst (parseFunction s i d)]) (snd (parseFunction s i d)))) s"
        by (rule unchanged_trans)
      with inb False show ?thesis by (subst parseFunctions.simps) (simp add: Let_def)
    qed
  qed
qed

lemma foldl_invariant2:
  assumes "R (snd t)" and "\<And>m t x. R t \<Longrightarrow> R (snd (f (m, t) x))"
  shows "R (snd (foldl f t xs))"
  using assms(1) 
proof (induction xs arbitrary: t)
  case Nil then show ?case by simp
next
  case (Cons x xs)
  have "R (snd (f t x))" using assms(2) [of "snd t" "fst t" x] Cons.prems by simp
  then show ?case by (simp add: Cons.IH)
qed

lemma unchanged_checkDuplicates:
  "unchangedButErrors t s \<Longrightarrow> unchangedButErrors (checkDuplicates fs n i t) s"
  unfolding checkDuplicates_def by (rule foldl_invariant) simp_all

lemma unchanged_checkFunctionNames:
  "unchangedButErrors t s \<Longrightarrow> unchangedButErrors (snd (checkFunctionNames P fs n t)) s"
  unfolding checkFunctionNames_def
  by (rule foldl_invariant2) (simp_all add: unchanged_checkDuplicates)

lemma unchanged_checkFunctionValidity:
  "unchangedButErrors (checkFunctionValidity P s d) s"
proof -
  define n where "n = length (filter (\<lambda>c. uint (opcode c) = d) (commandsOf s))"
  obtain fs s1 where r: "parseFunctions d 0 0
       (replicate n \<lparr>name = [], definedInLine = 0, numberOfCommands = 0\<rparr>) s = (fs, s1)"
    by (cases "parseFunctions d 0 0
       (replicate n \<lparr>name = [], definedInLine = 0, numberOfCommands = 0\<rparr>) s") 
  obtain m s2 where r2: "checkFunctionNames P fs n s1 = (m, s2)"
    by (cases "checkFunctionNames P fs n s1")
  have "unchangedButErrors s1 s"
    using unchanged_parseFunctions
            [of d 0 0 "replicate n \<lparr>name = [], definedInLine = 0, numberOfCommands = 0\<rparr>" s]
    by (simp add: r)
  then have "unchangedButErrors (snd (checkFunctionNames P fs n s1)) s"
    by (rule unchanged_checkFunctionNames)
  then have "unchangedButErrors s2 s" by (simp add: r2)
  then show ?thesis
    by (simp add: checkFunctionValidity_def Let_def r r2 n_def [symmetric])
qed

lemma unchanged_checkComparison:
  "unchangedButErrors t s \<Longrightarrow> unchangedButErrors (checkComparison ls c t) s"
  by (simp add: checkComparison_def Let_def split: prod.splits)

lemma unchanged_checkLabelDuplicates:
  "unchangedButErrors t s \<Longrightarrow> unchangedButErrors (checkLabelDuplicates ls t) s"
  unfolding checkLabelDuplicates_def
  by (rule foldl_invariant, assumption, rule foldl_invariant, assumption) simp

lemma unchanged_checkWhoWouldWinValidity:
  "unchangedButErrors (checkWhoWouldWinValidity s w) s"
  unfolding checkWhoWouldWinValidity_def Let_def
  by (rule foldl_invariant) (simp_all add: unchanged_checkLabelDuplicates unchanged_checkComparison)

lemma unchanged_checkTheyreTheSamePictureValidity:
  "unchangedButErrors (checkTheyreTheSamePictureValidity s c) s"
proof -
  have h: "unchangedButErrors (foldl (\<lambda>s x. if uint (opcode x) = c
                            then printSemanticError samePictureMessage (lineNum x) s
                            else s) s cmds) s" for cmds
    by (rule foldl_invariant) simp_all
  show ?thesis
    by (simp add: checkTheyreTheSamePictureValidity_def Let_def h)
qed

text \<open>
  C10: running \<^verbatim>\<open>checkFunctionValidity\<close>, \<^verbatim>\<open>checkWhoWouldWinValidity\<close> and
  \<^verbatim>\<open>checkTheyreTheSamePictureValidity\<close> leaves the command stream, with every command in it,
  and every other field of the compile state as it was; only the error counter changes.
\<close>

theorem analyzers_only_count_errors:
  "unchangedButErrors (checkFunctionValidity P s functionDeclarationOpcode) s \<and>
   unchangedButErrors (checkWhoWouldWinValidity s whoWouldWinOpcode) s \<and>
   unchangedButErrors (checkTheyreTheSamePictureValidity s comparisonOpcode) s \<and>
   commandsOf (checkFunctionValidity P s functionDeclarationOpcode) = commandsOf s \<and>
   commandsOf (checkWhoWouldWinValidity s whoWouldWinOpcode) = commandsOf s \<and>
   commandsOf (checkTheyreTheSamePictureValidity s comparisonOpcode) = commandsOf s"
  using unchanged_checkFunctionValidity [of P s functionDeclarationOpcode]
        unchanged_checkWhoWouldWinValidity [of s whoWouldWinOpcode]
        unchanged_checkTheyreTheSamePictureValidity [of s comparisonOpcode]
  by (simp add: unchangedButErrors_def commandsOf_def)

section \<open>Function boundaries\<close>


lemma lastReturn_none:
  "\<forall>c \<in> set xs. \<not> isReturn d c \<Longrightarrow> lastReturn d xs index e = e"
  by (induction xs arbitrary: index) simp_all

lemma scan_segment:
  assumes "commandsOf s = pre @ seg @ rest"
    and "length pre = start + index"
    and "\<forall>c \<in> set seg. \<not> isDeclaration d c"
    and "rest = [] \<or> isDeclaration d (hd rest)"
  shows "parseFunction_scan d start index e s =
           (lastReturn d seg index e,
            if rest \<noteq> [] \<and> lastReturn d seg index e = 0
            then printSemanticError
                   ''Expected a return statement, but got a new function definition''
                   (lineNum (hd rest)) s
            else s)"
  using assms
proof (induction seg arbitrary: pre index e)
  case Nil
  show ?case
  proof (cases rest)
    case Nil
    with Nil.prems show ?thesis by (subst parseFunction_scan.simps) simp
  next
    case (Cons r rs)
    with Nil.prems have "isDeclaration d r" by simp
    with Nil.prems Cons show ?thesis
      by (subst parseFunction_scan.simps) (simp add: isDeclaration_def Let_def nth_append)
  qed
next
  case (Cons c seg)
  have c: "commandsOf s ! (start + index) = c" "start + index < length (commandsOf s)"
    using Cons.prems(1,2) by (simp_all add: nth_append)
  have nd: "uint (opcode c) \<noteq> d" using Cons.prems(3) by (simp add: isDeclaration_def)
  have "parseFunction_scan d start index e s =
        parseFunction_scan d start (index + 1) (if isReturn d c then index else e) s"
    using c nd by (subst parseFunction_scan.simps) (simp add: Let_def isReturn_def)
  also have "\<dots> = (lastReturn d seg (index + 1) (if isReturn d c then index else e),
            if rest \<noteq> [] \<and> lastReturn d seg (index + 1) (if isReturn d c then index else e) = 0
            then printSemanticError
                   ''Expected a return statement, but got a new function definition''
                   (lineNum (hd rest)) s
            else s)"
    using Cons.prems by (intro Cons.IH [of "pre @ [c]"]) simp_all
  finally show ?case by simp
qed

lemma commandsOf_reportFloating [simp]: "commandsOf (reportFloating xs s) = commandsOf s"
  by (induction xs arbitrary: s) (simp_all add: reportFloating_def)

lemma snd_reportFloating:
  "snd (reportFloating xs s) =
     snd s @ map (\<lambda>c. \<lparr>message = ''Statement does not belong to any function'',
                       atLine = lineNum c, extraLine = None\<rparr>) xs"
  by (induction xs arbitrary: s) (simp_all add: reportFloating_def)

lemma skip_floating:
  assumes "commandsOf s = pre @ xs @ rest"
    and "length pre = i"
    and "\<forall>c \<in> set xs. \<not> isDeclaration d c"
  shows "parseFunctions d i k fs s = parseFunctions d (i + length xs) k fs (reportFloating xs s)"
  using assms
proof (induction xs arbitrary: pre i s)
  case Nil
  show ?case by (simp add: reportFloating_def)
next
  case (Cons c xs)
  have c: "commandsOf s ! i = c" "i < length (commandsOf s)"
    using Cons.prems(1,2) by (auto simp: nth_append)
  have nd: "uint (opcode c) \<noteq> d" using Cons.prems(3) by (simp add: isDeclaration_def)
  let ?s1 = "printSemanticError ''Statement does not belong to any function'' (lineNum c) s"
  have "parseFunctions d i k fs s = parseFunctions d (i + 1) k fs ?s1"
    using c nd by (subst parseFunctions.simps) simp
  also have "\<dots> = parseFunctions d (i + 1 + length xs) k fs (reportFloating xs ?s1)"
    using Cons.prems by (intro Cons.IH [of _ "pre @ [c]"]) simp_all
  finally show ?case by (simp add: reportFloating_def)
qed

lemma parse_step:
  assumes "i < length (commandsOf s)" and "isDeclaration d (commandsOf s ! i)"
  shows "parseFunctions d i k fs s =
           parseFunctions d (i + (numberOfCommands (fst (parseFunction s i d)) + 1)) (k + 1)
             (fs[k := fst (parseFunction s i d)]) (snd (parseFunction s i d))"
  using assms by (subst parseFunctions.simps) (simp add: isDeclaration_def Let_def)

lemma parseFunction_segment:
  assumes "commandsOf s = pre @ [dcl] @ seg @ rest"
    and "\<forall>c \<in> set seg. \<not> isDeclaration d c"
    and "rest = [] \<or> isDeclaration d (hd rest)"
  shows "parseFunction s (length pre) d =
           (\<lparr>name = fst (parameters dcl), definedInLine = lineNum dcl,
             numberOfCommands = lastReturn d seg 1 0\<rparr>,
            if lastReturn d seg 1 0 = 0
            then printSemanticError ''No return statement found'' (lineNum dcl)
                   (if rest \<noteq> []
                    then printSemanticError
                           ''Expected a return statement, but got a new function definition''
                           (lineNum (hd rest)) s
                    else s)
            else s)"
proof -
  have "parseFunction_scan d (length pre) (Suc 0) 0 s =
           (lastReturn d seg (Suc 0) 0,
            if rest \<noteq> [] \<and> lastReturn d seg (Suc 0) 0 = 0
            then printSemanticError
                   ''Expected a return statement, but got a new function definition''
                   (lineNum (hd rest)) s
            else s)"
    using assms by (intro scan_segment [of s "pre @ [dcl]"]) simp_all
  then show ?thesis using assms(1) by (simp add: parseFunction_def Let_def nth_append)
qed

lemma scan_bound:
  assumes "start + j < length (commandsOf s)"
    and "isDeclaration d (commandsOf s ! (start + j))"
    and "index \<le> j" and "e < j"
  shows "fst (parseFunction_scan d start index e s) < j"
  using assms
proof (induction d start index e s rule: parseFunction_scan.induct)
  case (1 d start index e s)
  have inb: "start + index < length (commandsOf s)" using "1.prems" by simp
  show ?case
  proof (cases "uint (opcode (commandsOf s ! (start + index))) = d")
    case True
    with inb "1.prems" show ?thesis by (subst parseFunction_scan.simps) (simp add: Let_def)
  next
    case False
    with "1.prems"(2,3) have lt: "index < j"
      by (cases "index = j") (auto simp: isDeclaration_def)
    let ?e = "if d < uint (opcode (commandsOf s ! (start + index))) \<and>
                  uint (opcode (commandsOf s ! (start + index))) \<le> d + 3 then index else e"
    have "fst (parseFunction_scan d start (index + 1) ?e s) < j"
      using "1.prems" lt False inb by (intro "1.IH" [OF inb refl refl False]) auto
    with inb False show ?thesis by (subst parseFunction_scan.simps) (simp add: Let_def)
  qed
qed

lemma extends_refl [simp]: "extends s s"
  by (simp add: extends_def)

lemma extends_trans: "extends u t \<Longrightarrow> extends t s \<Longrightarrow> extends u s"
  by (auto simp: extends_def)

lemma extends_printSemanticError [simp]: "extends (printSemanticError msg ln s) s"
  by (simp add: extends_def)

lemma extends_printSemanticError2: "extends t s \<Longrightarrow> extends (printSemanticError msg ln t) s"
  by (auto simp: extends_def)

lemma extends_printSemanticErrorWithExtraLineNumber:
  "extends t s \<Longrightarrow> extends (printSemanticErrorWithExtraLineNumber msg ln l2 t) s"
  by (auto simp: extends_def)

lemma extends_parseFunction_scan: "extends (snd (parseFunction_scan d start index e s)) s"
  by (induction d start index e s rule: parseFunction_scan.induct)
     (subst parseFunction_scan.simps, simp add: Let_def)

lemma extends_parseFunction: "extends (snd (parseFunction s i d)) s"
proof -
  obtain e s1 where r: "parseFunction_scan d i (Suc 0) 0 s = (e, s1)"
    by (cases "parseFunction_scan d i (Suc 0) 0 s")
  with extends_parseFunction_scan [of d i "Suc 0" 0 s] have "extends s1 s" by simp
  then show ?thesis by (simp add: parseFunction_def Let_def r extends_printSemanticError2)
qed

lemma extends_parseFunctions: "extends (snd (parseFunctions d i k fs s)) s"
proof (induction d i k fs s rule: parseFunctions.induct)
  case (1 d i k fs s)
  show ?case
  proof (cases "i < length (commandsOf s)")
    case False
    then show ?thesis by (subst parseFunctions.simps) simp
  next
    case inb: True
    show ?thesis
    proof (cases "uint (opcode (commandsOf s ! i)) \<noteq> d")
      case True
      from "1.IH"(1) [OF inb True] have
        "extends (snd (parseFunctions d (i + 1) k fs
            (printSemanticError ''Statement does not belong to any function''
               (lineNum (commandsOf s ! i)) s))) s"
        by (rule extends_trans) simp
      with inb True show ?thesis by (subst parseFunctions.simps) simp
    next
      case False
      from "1.IH"(2) [OF inb False refl] extends_parseFunction [of s i d]
      have "extends (snd (parseFunctions d
               (i + (numberOfCommands (fst (parseFunction s i d)) + 1)) (k + 1)
               (fs[k := fst (parseFunction s i d)]) (snd (parseFunction s i d)))) s"
        by (rule extends_trans)
      with inb False show ?thesis by (subst parseFunctions.simps) (simp add: Let_def)
    qed
  qed
qed

lemma cursor_reaches_declaration:
  assumes "p < length (commandsOf s)" and "isDeclaration d (commandsOf s ! p)" and "i \<le> p"
  shows "\<exists>k' fs' s'. parseFunctions d i k fs s = parseFunctions d p k' fs' s' \<and> extends s' s"
  using assms
proof (induction "p - i" arbitrary: i k fs s rule: less_induct)
  case less
  show ?case
  proof (cases "i = p")
    case True
    then show ?thesis using extends_refl by blast
  next
    case False
    with less.prems have lt: "i < p" by simp
    then have inb: "i < length (commandsOf s)" using less.prems by simp
    show ?thesis
    proof (cases "isDeclaration d (commandsOf s ! i)")
      case nd: False
      let ?s1 = "printSemanticError ''Statement does not belong to any function''
                   (lineNum (commandsOf s ! i)) s"
      have step: "parseFunctions d i k fs s = parseFunctions d (i + 1) k fs ?s1"
        using inb nd by (subst parseFunctions.simps) (simp add: isDeclaration_def)
      have "\<exists>k' fs' s'. parseFunctions d (i + 1) k fs ?s1 = parseFunctions d p k' fs' s' \<and>
              extends s' ?s1"
        using less.prems lt by (intro less.hyps) simp_all
      then obtain k' fs' s' where
        "parseFunctions d (i + 1) k fs ?s1 = parseFunctions d p k' fs' s'" "extends s' ?s1"
        by blast
      with step have "parseFunctions d i k fs s = parseFunctions d p k' fs' s' \<and> extends s' s"
        using extends_trans [of s' ?s1 s] by simp
      then show ?thesis by blast
    next
      case True
      let ?r = "parseFunction s i d"
      have step: "parseFunctions d i k fs s =
           parseFunctions d (i + (numberOfCommands (fst ?r) + 1)) (k + 1)
             (fs[k := fst ?r]) (snd ?r)"
        using inb True by (rule parse_step)
      have "fst (parseFunction_scan d i (Suc 0) 0 s) < p - i"
        using less.prems lt by (intro scan_bound) simp_all
      moreover have "numberOfCommands (fst ?r) = fst (parseFunction_scan d i (Suc 0) 0 s)"
        by (simp add: parseFunction_def Let_def split: prod.splits)
      ultimately have n: "i + (numberOfCommands (fst ?r) + 1) \<le> p"
        by simp
      have ext: "extends (snd ?r) s" by (rule extends_parseFunction)
      then have cmds: "commandsOf (snd ?r) = commandsOf s" by (simp add: extends_def)
      have "\<exists>k' fs' s'. parseFunctions d (i + (numberOfCommands (fst ?r) + 1)) (k + 1)
             (fs[k := fst ?r]) (snd ?r) = parseFunctions d p k' fs' s' \<and> extends s' (snd ?r)"
        using less.prems n lt cmds by (intro less.hyps) simp_all
      then obtain k' fs' s' where
        "parseFunctions d (i + (numberOfCommands (fst ?r) + 1)) (k + 1)
             (fs[k := fst ?r]) (snd ?r) = parseFunctions d p k' fs' s'" "extends s' (snd ?r)"
        by blast
      with step ext have "parseFunctions d i k fs s = parseFunctions d p k' fs' s' \<and> extends s' s"
        using extends_trans [of s' "snd ?r" s] by simp
      then show ?thesis by blast
    qed
  qed
qed

lemma parseFunction_returnless:
  assumes "commandsOf s = pre @ [d1] @ mid @ [d2] @ post"
    and "isDeclaration d d2"
    and "\<forall>c \<in> set mid. \<not> isDeclaration d c \<and> \<not> isReturn d c"
  shows "parseFunction s (length pre) d =
           (\<lparr>name = fst (parameters d1), definedInLine = lineNum d1, numberOfCommands = 0\<rparr>,
            printSemanticError ''No return statement found'' (lineNum d1)
              (printSemanticError
                 ''Expected a return statement, but got a new function definition''
                 (lineNum d2) s))"
proof -
  have "lastReturn d mid 1 0 = 0" using assms(3) by (intro lastReturn_none) simp
  then show ?thesis
    using parseFunction_segment [of s pre d1 mid "[d2] @ post" d] assms by simp
qed


lemma extends_checkDuplicates: "extends t s \<Longrightarrow> extends (checkDuplicates fs n i t) s"
  unfolding checkDuplicates_def
  by (rule foldl_invariant) (simp_all add: extends_printSemanticErrorWithExtraLineNumber)

lemma extends_checkFunctionNames:
  "extends t s \<Longrightarrow> extends (snd (checkFunctionNames P fs n t)) s"
  unfolding checkFunctionNames_def
  by (rule foldl_invariant2) (simp_all add: extends_checkDuplicates)

lemma checkFunctionValidity_after_loop:
  "extends (checkFunctionValidity P s d)
     (snd (parseFunctions d 0 0
        (replicate (length (filter (\<lambda>c. uint (opcode c) = d) (commandsOf s)))
           \<lparr>name = [], definedInLine = 0, numberOfCommands = 0\<rparr>) s))"
proof -
  define n where "n = length (filter (\<lambda>c. uint (opcode c) = d) (commandsOf s))"
  obtain fs s1 where r: "parseFunctions d 0 0
       (replicate n \<lparr>name = [], definedInLine = 0, numberOfCommands = 0\<rparr>) s = (fs, s1)"
    by (cases "parseFunctions d 0 0
       (replicate n \<lparr>name = [], definedInLine = 0, numberOfCommands = 0\<rparr>) s") 
  obtain m s2 where r2: "checkFunctionNames P fs n s1 = (m, s2)"
    by (cases "checkFunctionNames P fs n s1")
  have "extends (snd (checkFunctionNames P fs n s1)) s1"
    by (rule extends_checkFunctionNames) simp
  then have "extends s2 s1" by (simp add: r2)
  then show ?thesis
    by (simp add: checkFunctionValidity_def Let_def r r2 n_def [symmetric]
          extends_printSemanticError2)
qed

subsection \<open>Commands after a return\<close>




subsection \<open>A declaration before any return\<close>

text \<open>
  C2 as stated fails: one command is scanned before the new declaration at line 3, and the
  body length recorded is 0, not 1.
\<close>

theorem missing_return_body_length_counterexample:
  "numberOfCommands (fst (parseFunction
      (mkState [mkCommand 0 ''f'' [] 1, mkCommand 5 [] [] 2, mkCommand 0 ''g'' [] 3,
                mkCommand 1 [] [] 4]) 0 0)) = 0 \<and>
   numberOfCommands (fst (parseFunction
      (mkState [mkCommand 0 ''f'' [] 1, mkCommand 5 [] [] 2, mkCommand 0 ''g'' [] 3,
                mkCommand 1 [] [] 4]) 0 0)) \<noteq> length [mkCommand 5 [] [] 2]"
  by (simp add: parseFunction_def parseFunction_scan.simps mkCommand_def Let_def)

text \<open>
  C2, amended: when the scan of a function meets a new declaration before any return, it
  reports \<^verbatim>\<open>Expected a return statement, but got a new function definition\<close> at the line of
  the new declaration and stops there; the body length it records is 0, however many commands
  were scanned, and \<^verbatim>\<open>No return statement found\<close> follows at the function's own line.
\<close>

theorem missing_return_body_length:
  assumes "commandsOf s = pre @ [d1] @ mid @ [d2] @ post"
    and "isDeclaration d d2"
    and "\<forall>c \<in> set mid. \<not> isDeclaration d c \<and> \<not> isReturn d c"
  shows "numberOfCommands (fst (parseFunction s (length pre) d)) = 0 \<and>
         snd (snd (parseFunction s (length pre) d)) =
           snd s @
           [\<lparr>message = ''Expected a return statement, but got a new function definition'',
             atLine = lineNum d2, extraLine = None\<rparr>,
            \<lparr>message = ''No return statement found'', atLine = lineNum d1, extraLine = None\<rparr>]"
  using parseFunction_returnless [OF assms] by simp

theorem missing_return_body_length_witness:
  "numberOfCommands (fst (parseFunction
      (mkState [mkCommand 0 ''f'' [] 1, mkCommand 5 [] [] 2, mkCommand 6 [] [] 3,
                mkCommand 0 ''g'' [] 4]) 0 0)) = 0 \<and>
   snd (snd (parseFunction
      (mkState [mkCommand 0 ''f'' [] 1, mkCommand 5 [] [] 2, mkCommand 6 [] [] 3,
                mkCommand 0 ''g'' [] 4]) 0 0)) =
     [\<lparr>message = ''Expected a return statement, but got a new function definition'',
       atLine = 4, extraLine = None\<rparr>,
      \<lparr>message = ''No return statement found'', atLine = 1, extraLine = None\<rparr>]"
  using missing_return_body_length
          [of "mkState [mkCommand 0 ''f'' [] 1, mkCommand 5 [] [] 2, mkCommand 6 [] [] 3,
                        mkCommand 0 ''g'' [] 4]"
              "[]" "mkCommand 0 ''f'' [] 1" "[mkCommand 5 [] [] 2, mkCommand 6 [] [] 3]"
              "mkCommand 0 ''g'' [] 4" "[]" 0]
  by (simp add: isDeclaration_def isReturn_def mkCommand_def)

subsection \<open>The statements of a function without a return\<close>

text \<open>
  C9: when a declaration is followed by commands none of which is a return, up to the next
  declaration, the descriptor of the function records body length 0, so the cursor resumes
  right after the declaration: after the two missing-return reports, every command between the
  two declarations is reported as not belonging to any function, in stream order.
\<close>

theorem returnless_function_statements:
  assumes "commandsOf s = pre @ [d1] @ mid @ [d2] @ post"
    and "isDeclaration d d1" and "isDeclaration d d2"
    and "\<forall>c \<in> set mid. \<not> isDeclaration d c \<and> \<not> isReturn d c"
  shows "numberOfCommands (fst (parseFunction s (length pre) d)) = 0 \<and>
         (\<exists>A B. snd (checkFunctionValidity P s d) =
            snd s @ A @
            [\<lparr>message = ''Expected a return statement, but got a new function definition'',
              atLine = lineNum d2, extraLine = None\<rparr>,
             \<lparr>message = ''No return statement found'', atLine = lineNum d1, extraLine = None\<rparr>] @
            map (\<lambda>c. \<lparr>message = ''Statement does not belong to any function'',
                       atLine = lineNum c, extraLine = None\<rparr>) mid @ B)"
proof -
  let ?fs0 = "replicate (length (filter (\<lambda>c. uint (opcode c) = d) (commandsOf s)))
           \<lparr>name = [], definedInLine = 0, numberOfCommands = 0\<rparr>"
  have nd: "\<forall>c \<in> set mid. \<not> isDeclaration d c"
    using assms(4) by simp
  have pf: "parseFunction t (length pre) d =
           (\<lparr>name = fst (parameters d1), definedInLine = lineNum d1, numberOfCommands = 0\<rparr>,
            printSemanticError ''No return statement found'' (lineNum d1)
              (printSemanticError
                 ''Expected a return statement, but got a new function definition''
                 (lineNum d2) t))"
    if "commandsOf t = commandsOf s" for t
    using parseFunction_returnless [of t pre d1 mid d2 post d] that assms(1,3,4) by simp
  obtain k' fs' s' where reach:
    "parseFunctions d 0 0 ?fs0 s = parseFunctions d (length pre) k' fs' s'" and ext: "extends s' s"
    using cursor_reaches_declaration [of "length pre" s d 0 0 ?fs0] assms(1,2) by auto
  from ext have cmds: "commandsOf s' = commandsOf s" by (simp add: extends_def)
  let ?s2 = "printSemanticError ''No return statement found'' (lineNum d1)
              (printSemanticError
                 ''Expected a return statement, but got a new function definition''
                 (lineNum d2) s')"
  let ?f = "\<lparr>name = fst (parameters d1), definedInLine = lineNum d1, numberOfCommands = 0\<rparr>"
  have "parseFunctions d (length pre) k' fs' s' =
        parseFunctions d (length pre + 1) (k' + 1) (fs'[k' := ?f]) ?s2"
    using parse_step [of "length pre" s' d k' fs'] assms(1,2) cmds pf [OF cmds] by simp
  also have "\<dots> = parseFunctions d (length pre + 1 + length mid) (k' + 1) (fs'[k' := ?f])
                      (reportFloating mid ?s2)"
    using assms(1) cmds nd
    by (intro skip_floating [of _ "pre @ [d1]" mid "[d2] @ post"]) simp_all
  finally have loop: "parseFunctions d 0 0 ?fs0 s =
      parseFunctions d (length pre + 1 + length mid) (k' + 1) (fs'[k' := ?f])
                      (reportFloating mid ?s2)"
    using reach by simp
  have "extends (checkFunctionValidity P s d) (reportFloating mid ?s2)"
    using checkFunctionValidity_after_loop [of P s d]
      extends_parseFunctions [of d "length pre + 1 + length mid" "k' + 1" "fs'[k' := ?f]"
         "reportFloating mid ?s2"]
    unfolding loop by (rule extends_trans)
  then obtain B where "snd (checkFunctionValidity P s d) = snd (reportFloating mid ?s2) @ B"
    by (auto simp: extends_def)
  moreover obtain A where "snd s' = snd s @ A" using ext by (auto simp: extends_def)
  ultimately have "snd (checkFunctionValidity P s d) =
            snd s @ A @
            [\<lparr>message = ''Expected a return statement, but got a new function definition'',
              atLine = lineNum d2, extraLine = None\<rparr>,
             \<lparr>message = ''No return statement found'', atLine = lineNum d1, extraLine = None\<rparr>] @
            map (\<lambda>c. \<lparr>message = ''Statement does not belong to any function'',
                       atLine = lineNum c, extraLine = None\<rparr>) mid @ B"
    by (simp add: snd_reportFloating)
  then show ?thesis using pf [OF refl] by auto
qed

theorem returnless_function_statements_witness:
  "numberOfCommands (fst (parseFunction
      (mkState [mkCommand 0 ''f'' [] 1, mkCommand 5 [] [] 2, mkCommand 6 [] [] 3,
                mkCommand 0 ''g'' [] 4, mkCommand 1 [] [] 5]) 0 0)) = 0 \<and>
   (\<exists>A B. snd (checkFunctionValidity LINUX
      (mkState [mkCommand 0 ''f'' [] 1, mkCommand 5 [] [] 2, mkCommand 6 [] [] 3,
                mkCommand 0 ''g'' [] 4, mkCommand 1 [] [] 5]) 0) =
      A @
      [\<lparr>message = ''Expected a return statement, but got a new function definition'',
        atLine = 4, extraLine = None\<rparr>,
       \<lparr>message = ''No return statement found'', atLine = 1, extraLine = None\<rparr>,
       \<lparr>message = ''Statement does not belong to any function'', atLine = 2, extraLine = None\<rparr>,
       \<lparr>message = ''Statement does not belong to any function'', atLine = 3, extraLine = None\<rparr>] @
      B)"
  using returnless_function_statements
          [of "mkState [mkCommand 0 ''f'' [] 1, mkCommand 5 [] [] 2, mkCommand 6 [] [] 3,
                        mkCommand 0 ''g'' [] 4, mkCommand 1 [] [] 5]"
              "[]" "mkCommand 0 ''f'' [] 1" "[mkCommand 5 [] [] 2, mkCommand 6 [] [] 3]"
              "mkCommand 0 ''g'' [] 4" "[mkCommand 1 [] [] 5]" 0 LINUX]
  by (simp add: isDeclaration_def isReturn_def mkCommand_def)

section \<open>What the translator writes\<close>

subsection \<open>Bytes as signed characters\<close>

lemma signed_byte_small: "(0::int) \<le> k \<Longrightarrow> k < 128 \<Longrightarrow> signed_take_bit 7 k = k"
  by (rule signed_take_bit_int_eq_self) simp_all

lemma signed_byte_large:
  assumes "(128::int) \<le> k" and "k < 256"
  shows "signed_take_bit 7 k = k - 256"
proof -
  have "signed_take_bit 7 k = signed_take_bit 7 (k - 256)"
    unfolding signed_take_bit_eq_iff_take_bit_eq take_bit_eq_mod
    by (simp add: mod_diff_eq)
  also have "\<dots> = k - 256"
    using assms by (intro signed_take_bit_int_eq_self) simp_all
  finally show ?thesis .
qed

lemma sint8: "sint (w :: 8 word) = (if uint w < 128 then uint w else uint w - 256)"
proof (cases "uint w < 128")
  case True
  then have "signed_take_bit 7 (uint w) = uint w"
    by (intro signed_byte_small) simp_all
  with True show ?thesis by (simp add: sint_uint)
next
  case False
  then have ge: "128 \<le> uint w" by simp
  have lt: "uint w < 256" using uint_lt2p [of w] by simp
  from ge lt have "signed_take_bit 7 (uint w) = uint w - 256" by (rule signed_byte_large)
  with False show ?thesis by (simp add: sint_uint)
qed

lemma unat_of_char: "unat (of_char c :: 8 word) = of_char c"
proof -
  have "(of_char c :: 8 word) = of_nat (of_char c)" by (simp only: of_nat_of_char)
  then have "unat (of_char c :: 8 word) = (of_char c :: nat) mod 256" by (simp only: unat_of_nat) simp
  then show ?thesis by (simp only: of_char_mod_256)
qed

lemma uint_of_char: "uint (of_char c :: 8 word) = of_char c"
proof -
  have "uint (of_char c :: 8 word) = int (unat (of_char c :: 8 word))" by (rule uint_nat)
  also have "\<dots> = int (of_char c)" by (simp only: unat_of_char)
  also have "\<dots> = of_char c" by (rule of_nat_of_char)
  finally show ?thesis .
qed

lemma charValue_eq:
  "charValue c = (if (of_char c :: int) < 128 then of_char c else of_char c - 256)"
  unfolding charValue_def sint8 uint_of_char by simp

lemma of_char_range: "(0::int) \<le> of_char c \<and> (of_char c :: int) < 256"
proof -
  have "(of_char c :: nat) mod 256 < 256" by simp
  then have "(of_char c :: nat) < 256" by (simp only: of_char_mod_256)
  moreover have "(of_char c :: int) = int (of_char c)" by (rule of_nat_of_char [symmetric])
  ultimately show ?thesis by simp
qed

subsection \<open>Template expansion\<close>

lemma expand_step:
  assumes "usedParameters command \<le> 2"
  shows "expandPattern command pc (c # pattern) line =
           expandPattern command pc pattern (line @ substituteCharacter command pc c)"
proof -
  let ?k = "usedParameters command"
  let ?n = "of_char c :: int"
  have k2: "uint ?k \<le> 2" using assms by (simp add: word_le_def)
  then have k: "sint ?k = uint ?k" by (simp add: sint8)
  show ?thesis
  proof (cases "48 \<le> ?n \<and> ?n < 48 + uint ?k")
    case True
    then have small: "?n < 128" using k2 by simp
    then have cv: "charValue c = ?n" by (simp add: charValue_eq)
    from True k2 have idx: "?n - 48 = 0 \<or> ?n - 48 = 1" by auto
    have src: "48 \<le> charValue c \<and> charValue c \<le> sint ?k + 47"
      using True by (simp add: cv k)
    have pa: "parameterAt pc (nat (?n - 48)) = Inr (parameterOf pc (?n - 48))"
      using idx by (auto simp: parameterAt_def parameterOf_def)
    have "expandPattern command pc (c # pattern) line =
          (if uint (isPointer pc) = (?n - 48) + 1
           then expandPattern command pc pattern (line @ ''['' @ parameterOf pc (?n - 48) @ '']'')
           else expandPattern command pc pattern (line @ parameterOf pc (?n - 48)))"
      unfolding expandPattern.simps cv using src pa unfolding cv by simp
    moreover have "substituteCharacter command pc c =
          (if uint (isPointer pc) = (?n - 48) + 1
           then ''['' @ parameterOf pc (?n - 48) @ '']''
           else parameterOf pc (?n - 48))"
      using True by (simp add: substituteCharacter_def)
    ultimately show ?thesis by simp
  next
    case False
    have ns: "\<not> (48 \<le> charValue c \<and> charValue c \<le> sint ?k + 47)"
      using False k2 of_char_range [of c] by (auto simp: charValue_eq k split: if_splits)
    show ?thesis by (simp add: substituteCharacter_def False ns)
  qed
qed

lemma expandPattern_substitute:
  assumes "usedParameters command \<le> 2"
  shows "expandPattern command pc pattern line =
           Inr (line @ concat (map (substituteCharacter command pc) pattern))"
proof (induction pattern arbitrary: line)
  case Nil
  show ?case by simp
next
  case (Cons c pattern)
  show ?case by (simp only: expand_step [OF assms] Cons.IH) simp
qed

lemma writeTranslatedLine_substitute:
  assumes "usedParameters (commandList (opcode pc)) \<le> 2"
  shows "writeTranslatedLine commandList pc = Inr (specLine commandList pc)"
  by (simp add: writeTranslatedLine_def specLine_def Let_def expandPattern_substitute [OF assms])

text \<open>
  C4: for a table entry with at most two parameters, the line written for a command is the
  expansion in the words of the specification: every template character verbatim unless it
  is a placeholder digit, the parameter in brackets exactly when \<open>isPointer\<close> names it, and
  one leading tab exactly when the opcode is not 0. Every translated command (one that the
  level o42069 does not drop) writes this line between its STABS label and the padding of its
  optimisation level; without STABS it writes the line and the padding only.
\<close>

theorem template_expansion:
  assumes "index < arraySize (commandsArray cs)"
    and "pc = arrayPointer (commandsArray cs) ! index"
    and "usedParameters (commandList (opcode pc)) \<le> 2"
    and "opcode pc = 0 \<or> optimisationLevel cs \<noteq> o42069"
  shows "writeTranslatedLine commandList pc = Inr (specLine commandList pc) \<and>
         translateToAssembly commandList cs st index =
           (case stabsLabel commandList cs st index pc of
              Inl f \<Rightarrow> Inl f
            | Inr (label, st') \<Rightarrow>
                (case stabsLineInfo commandList cs st' index pc of
                   Inl f \<Rightarrow> Inl f
                 | Inr info \<Rightarrow>
                     Inr (label @ specLine commandList pc @
                          optimisationPadding (optimisationLevel cs) @ info, st'))) \<and>
         (\<not> useStabs cs \<longrightarrow>
            translateToAssembly commandList cs st index =
              Inr (specLine commandList pc @ optimisationPadding (optimisationLevel cs), st))"
proof -
  have at: "commandAt cs index = Inr pc" using assms(1,2) by (simp add: commandAt_def)
  have w: "writeTranslatedLine commandList pc = Inr (specLine commandList pc)"
    using writeTranslatedLine_substitute [of commandList pc] assms(3) by simp
  have t: "translateToAssembly commandList cs st index =
           (case stabsLabel commandList cs st index pc of
              Inl f \<Rightarrow> Inl f
            | Inr (label, st') \<Rightarrow>
                (case stabsLineInfo commandList cs st' index pc of
                   Inl f \<Rightarrow> Inl f
                 | Inr info \<Rightarrow>
                     Inr (label @ specLine commandList pc @
                          optimisationPadding (optimisationLevel cs) @ info, st')))"
    using assms(4) by (auto simp: translateToAssembly_def at w split: sum.splits prod.splits)
  have "translateToAssembly commandList cs st index =
              Inr (specLine commandList pc @ optimisationPadding (optimisationLevel cs), st)" if "\<not> useStabs cs"
    unfolding t using that by (simp add: stabsLabel_def stabsLineInfo_def)
  with w t show ?thesis by blast
qed

theorem template_expansion_witness:
  "writeTranslatedLine exampleCommandList ((mkCommand 5 ''rax'' ''rbx'' 2)\<lparr>isPointer := 2\<rparr>) =
     Inr (TAB @ ''mov rax, [rbx]\<newline>'') \<and>
   translateToAssembly exampleCommandList
     (exampleState [mkCommand 0 ''main'' [] 1, (mkCommand 5 ''rax'' ''rbx'' 2)\<lparr>isPointer := 2\<rparr>]
        0 o_1 False)
     \<lparr>currentFunctionName = None, DNLABEL = 0\<rparr> 1 =
     Inr (TAB @ ''mov rax, [rbx]\<newline>'' @ TAB @ ''nop\<newline>'',
          \<lparr>currentFunctionName = None, DNLABEL = 0\<rparr>)"
proof -
  let ?pc = "(mkCommand 5 ''rax'' ''rbx'' 2)\<lparr>isPointer := 2\<rparr>"
  let ?cs = "exampleState [mkCommand 0 ''main'' [] 1, ?pc] 0 o_1 False"
  let ?st = "\<lparr>currentFunctionName = None, DNLABEL = 0\<rparr>"
  have h1: "1 < arraySize (commandsArray ?cs)"
    by (simp add: exampleState_def arraySize_def)
  have h2: "?pc = arrayPointer (commandsArray ?cs) ! 1"
    by (simp add: exampleState_def)
  have h3: "usedParameters (exampleCommandList (opcode ?pc)) \<le> 2"
    by (simp add: exampleCommandList_def mkCommand_def)
  have h4: "opcode ?pc = 0 \<or> optimisationLevel ?cs \<noteq> o42069"
    by (simp add: exampleState_def)
  have l: "specLine exampleCommandList ?pc = TAB @ ''mov rax, [rbx]\<newline>''"
    by (simp add: specLine_def substituteCharacter_def parameterOf_def exampleCommandList_def
          mkCommand_def)
  have ns: "\<not> useStabs ?cs" by (simp add: exampleState_def)
  have pad: "optimisationPadding (optimisationLevel ?cs) = TAB @ ''nop\<newline>''"
    by (simp add: exampleState_def optimisationPadding_def)
  note t = template_expansion [where commandList = exampleCommandList and st = ?st,
             OF h1 h2 h3 h4]
  from t have a: "writeTranslatedLine exampleCommandList ?pc = Inr (specLine exampleCommandList ?pc)"
    by (rule conjunct1)
  from t ns have b: "translateToAssembly exampleCommandList ?cs ?st 1 =
      Inr (specLine exampleCommandList ?pc @ optimisationPadding (optimisationLevel ?cs), ?st)"
    by blast
  from a b show ?thesis unfolding l pad by simp
qed

subsection \<open>The forward line label of STABS\<close>

lemma parameterAt_fault:
  "parameterAt pc i = Inl f \<Longrightarrow> f = ParameterIndexOutOfBounds i"
  by (auto simp: parameterAt_def split: if_splits)

lemma expandPattern_fault:
  "expandPattern command pc pattern line = Inl f \<Longrightarrow> \<exists>i. f = ParameterIndexOutOfBounds i"
proof (induction pattern arbitrary: line)
  case Nil
  then show ?case by simp
next
  case (Cons c pattern)
  then show ?case
    by (auto split: if_splits sum.splits dest: parameterAt_fault)
qed

lemma writeTranslatedLine_fault:
  "writeTranslatedLine commandList pc = Inl f \<Longrightarrow> \<exists>i. f = ParameterIndexOutOfBounds i"
  by (auto simp: writeTranslatedLine_def Let_def split: sum.splits dest: expandPattern_fault)

lemma stabsLineInfo_fault:
  assumes "index < arraySize (commandsArray cs)"
  shows "stabsLineInfo commandList cs st index pc \<noteq> Inl f"
  using assms
  by (auto simp: stabsLineInfo_def commandAt_def split: if_splits sum.splits)

lemma stabsLabel_fault:
  "stabsLabel commandList cs st index pc = Inl f \<longleftrightarrow>
     useStabs cs \<and> opcode pc \<noteq> 0 \<and> stabs_ignore commandList (opcode pc) \<and>
     \<not> index + 1 < arraySize (commandsArray cs) \<and> f = CommandIndexOutOfBounds (index + 1)"
  by (auto simp: stabsLabel_def commandAt_def split: if_splits sum.splits)

text \<open>
  C3: with STABS on and a level other than o42069, translating a command whose template is
  exactly \<^verbatim>\<open>int3\<close> reads the command array at \<open>index + 1\<close> for the forward line label;
  when that command is the last of the stream the read is at position \<open>size\<close>, outside the
  array. It is the only read of the translation of one command that can leave the array, so
  the translation stays in bounds exactly when no such command is last. In the command table
  the template of the declaration opcode 0 is a label, not \<^verbatim>\<open>int3\<close>.
\<close>

theorem stabs_forward_label_bounds:
  assumes "index < arraySize (commandsArray cs)"
    and "translationPattern (commandList 0) \<noteq> ''int3''"
  shows "(translateToAssembly commandList cs st index = Inl (CommandIndexOutOfBounds (index + 1))
          \<longleftrightarrow>
          useStabs cs \<and> optimisationLevel cs \<noteq> o42069 \<and>
          translationPattern (commandList (opcode (arrayPointer (commandsArray cs) ! index))) =
            ''int3'' \<and>
          index + 1 = arraySize (commandsArray cs)) \<and>
         (\<forall>j. translateToAssembly commandList cs st index = Inl (CommandIndexOutOfBounds j)
              \<longrightarrow> j = index + 1)"
proof -
  let ?pc = "arrayPointer (commandsArray cs) ! index"
  have at: "commandAt cs index = Inr ?pc" using assms(1) by (simp add: commandAt_def)
  have nz: "opcode ?pc \<noteq> 0" if "translationPattern (commandList (opcode ?pc)) = ''int3''"
    using that assms(2) by auto
  have fault: "translateToAssembly commandList cs st index = Inl (CommandIndexOutOfBounds j) \<longleftrightarrow>
        \<not> (opcode ?pc \<noteq> 0 \<and> optimisationLevel cs = o42069) \<and>
        stabsLabel commandList cs st index ?pc = Inl (CommandIndexOutOfBounds j)" for j
    using assms(1)
    by (auto simp: translateToAssembly_def at split: sum.splits prod.splits
             dest: writeTranslatedLine_fault simp: stabsLineInfo_fault)
  show ?thesis
    unfolding fault stabsLabel_fault stabs_ignore_def using assms(1) nz by auto
qed

theorem stabs_forward_label_bounds_witness:
  "translateToAssembly exampleCommandList
     (exampleState [mkCommand 0 ''main'' [] 1, mkCommand 2 [] [] 2, mkCommand 6 [] [] 3]
        0 o_none True)
     \<lparr>currentFunctionName = Some ''main'', DNLABEL = 0\<rparr> 2 =
     Inl (CommandIndexOutOfBounds 3) \<and>
   translateToAssembly exampleCommandList
     (exampleState [mkCommand 0 ''main'' [] 1, mkCommand 6 [] [] 2, mkCommand 2 [] [] 3]
        0 o_none True)
     \<lparr>currentFunctionName = Some ''main'', DNLABEL = 0\<rparr> 1 \<noteq>
     Inl (CommandIndexOutOfBounds 2)"
proof -
  let ?last = "exampleState [mkCommand 0 ''main'' [] 1, mkCommand 2 [] [] 2, mkCommand 6 [] [] 3]
                 0 o_none True"
  let ?inner = "exampleState [mkCommand 0 ''main'' [] 1, mkCommand 6 [] [] 2, mkCommand 2 [] [] 3]
                  0 o_none True"
  let ?st = "\<lparr>currentFunctionName = Some ''main'', DNLABEL = 0\<rparr>"
  have h1: "2 < arraySize (commandsArray ?last)"
    by (simp add: exampleState_def arraySize_def)
  have h1': "1 < arraySize (commandsArray ?inner)"
    by (simp add: exampleState_def arraySize_def)
  have h2: "translationPattern (exampleCommandList 0) \<noteq> ''int3''"
    by (simp add: exampleCommandList_def)
  have c: "useStabs ?last \<and> optimisationLevel ?last \<noteq> o42069 \<and>
           translationPattern (exampleCommandList (opcode (arrayPointer (commandsArray ?last) ! 2))) =
             ''int3'' \<and>
           2 + 1 = arraySize (commandsArray ?last)"
    by (simp add: exampleState_def arraySize_def exampleCommandList_def mkCommand_def)
  have c': "\<not> (1 + 1 = arraySize (commandsArray ?inner))"
    by (simp add: exampleState_def arraySize_def)
  have a: "translateToAssembly exampleCommandList ?last ?st 2 = Inl (CommandIndexOutOfBounds (2 + 1))"
    using stabs_forward_label_bounds [where commandList = exampleCommandList and st = ?st,
            OF h1 h2] c by blast
  have b: "translateToAssembly exampleCommandList ?inner ?st 1 \<noteq> Inl (CommandIndexOutOfBounds (1 + 1))"
    using stabs_forward_label_bounds [where commandList = exampleCommandList and st = ?st,
            OF h1' h2] c' by blast
  have n: "(2::nat) + 1 = 3" "(1::nat) + 1 = 2" by simp_all
  from a b show ?thesis unfolding n by blast
qed

subsection \<open>The level o42069\<close>

text \<open>
  C6: at the level o42069 a command whose opcode is not 0 writes nothing and leaves the
  translator state alone; a declaration writes its line, immediately followed by
  \<^verbatim>\<open>xor rax, rax\<close> and \<^verbatim>\<open>ret\<close>, each after a tab, and nothing else; and the file is the
  prelude, the translated commands and the STABS epilogue, without the \<^verbatim>\<open>writechar\<close> and
  \<^verbatim>\<open>readchar\<close> bodies.
\<close>

theorem o42069_output:
  assumes "optimisationLevel cs = o42069"
    and "index < arraySize (commandsArray cs)"
    and "pc = arrayPointer (commandsArray cs) ! index"
  shows "(opcode pc \<noteq> 0 \<longrightarrow> translateToAssembly commandList cs st index = Inr ([], st)) \<and>
         (opcode pc = 0 \<longrightarrow>
            translateToAssembly commandList cs st index =
              (case writeTranslatedLine commandList pc of
                 Inl f \<Rightarrow> Inl f
               | Inr line \<Rightarrow>
                   Inr (line @ TAB @ ''xor rax, rax\<newline>'' @ TAB @ ''ret\<newline>'',
                        if useStabs cs
                        then st\<lparr>currentFunctionName := Some (fst (parameters pc))\<rparr>
                        else st))) \<and>
         writeToFile P env commandList cs inputFileString =
           (case translateCommands commandList cs \<lparr>currentFunctionName = None, DNLABEL = 0\<rparr>
                   [0 ..< arraySize (commandsArray cs)] of
              Inl f \<Rightarrow> Inl f
            | Inr body \<Rightarrow>
                Inr (prelude P env cs inputFileString @ body @
                     (if useStabs cs then stabsEpilogue (arrayPointer (commandsArray cs))
                      else [])))"
proof -
  have at: "commandAt cs index = Inr pc" using assms(2,3) by (simp add: commandAt_def)
  have a: "translateToAssembly commandList cs st index = Inr ([], st)" if "opcode pc \<noteq> 0"
    using that assms(1) by (simp add: translateToAssembly_def at)
  have b: "translateToAssembly commandList cs st index =
              (case writeTranslatedLine commandList pc of
                 Inl f \<Rightarrow> Inl f
               | Inr line \<Rightarrow>
                   Inr (line @ TAB @ ''xor rax, rax\<newline>'' @ TAB @ ''ret\<newline>'',
                        if useStabs cs
                        then st\<lparr>currentFunctionName := Some (fst (parameters pc))\<rparr>
                        else st))" if "opcode pc = 0"
    using that assms(1)
    by (simp add: translateToAssembly_def at stabsLabel_def stabsLineInfo_def
          optimisationPadding_def split: sum.splits)
  have c: "writeToFile P env commandList cs inputFileString =
           (case translateCommands commandList cs \<lparr>currentFunctionName = None, DNLABEL = 0\<rparr>
                   [0 ..< arraySize (commandsArray cs)] of
              Inl f \<Rightarrow> Inl f
            | Inr body \<Rightarrow>
                Inr (prelude P env cs inputFileString @ body @
                     (if useStabs cs then stabsEpilogue (arrayPointer (commandsArray cs))
                      else [])))"
    using assms(1) by (simp add: writeToFile_def split: sum.splits)
  from a b c show ?thesis by blast
qed

theorem o42069_output_witness:
  "translateToAssembly exampleCommandList
     (exampleState [mkCommand 0 ''main'' [] 1, mkCommand 5 ''rax'' ''rbx'' 2, mkCommand 2 [] [] 3]
        7 o42069 False)
     \<lparr>currentFunctionName = None, DNLABEL = 0\<rparr> 1 =
     Inr ([], \<lparr>currentFunctionName = None, DNLABEL = 0\<rparr>) \<and>
   translateToAssembly exampleCommandList
     (exampleState [mkCommand 0 ''main'' [] 1, mkCommand 5 ''rax'' ''rbx'' 2, mkCommand 2 [] [] 3]
        7 o42069 False)
     \<lparr>currentFunctionName = None, DNLABEL = 0\<rparr> 0 =
     Inr (''main:\<newline>'' @ TAB @ ''xor rax, rax\<newline>'' @ TAB @ ''ret\<newline>'',
          \<lparr>currentFunctionName = None, DNLABEL = 0\<rparr>) \<and>
   writeToFile LINUX exampleEnvironment exampleCommandList
     (exampleState [mkCommand 0 ''main'' [] 1, mkCommand 5 ''rax'' ''rbx'' 2, mkCommand 2 [] [] 3]
        7 o42069 False) ''a.memeasm'' =
     Inr (prelude LINUX exampleEnvironment
            (exampleState [mkCommand 0 ''main'' [] 1, mkCommand 5 ''rax'' ''rbx'' 2,
                           mkCommand 2 [] [] 3] 7 o42069 False) ''a.memeasm'' @
          ''main:\<newline>'' @ TAB @ ''xor rax, rax\<newline>'' @ TAB @ ''ret\<newline>'')"
proof -
  let ?cs = "exampleState [mkCommand 0 ''main'' [] 1, mkCommand 5 ''rax'' ''rbx'' 2,
                           mkCommand 2 [] [] 3] 7 o42069 False"
  let ?st = "\<lparr>currentFunctionName = None, DNLABEL = 0\<rparr>"
  have h1: "optimisationLevel ?cs = o42069" by (simp add: exampleState_def)
  have h2: "1 < arraySize (commandsArray ?cs)" "0 < arraySize (commandsArray ?cs)"
    by (simp_all add: exampleState_def arraySize_def)
  have h3: "mkCommand 5 ''rax'' ''rbx'' 2 = arrayPointer (commandsArray ?cs) ! 1"
    "mkCommand 0 ''main'' [] 1 = arrayPointer (commandsArray ?cs) ! 0"
    by (simp_all add: exampleState_def)
  have op: "opcode (mkCommand 5 ''rax'' ''rbx'' 2) \<noteq> 0" "opcode (mkCommand 0 ''main'' [] 1) = 0"
    by (simp_all add: mkCommand_def)
  have ns: "\<not> useStabs ?cs" by (simp add: exampleState_def)
  have w: "writeTranslatedLine exampleCommandList (mkCommand 0 ''main'' [] 1) = Inr ''main:\<newline>''"
    by code_simp
  have tc: "translateCommands exampleCommandList ?cs ?st [0 ..< arraySize (commandsArray ?cs)] =
              Inr (''main:\<newline>'' @ TAB @ ''xor rax, rax\<newline>'' @ TAB @ ''ret\<newline>'')"
    by code_simp
  note t1 = o42069_output [where commandList = exampleCommandList and st = ?st and P = LINUX and
               env = exampleEnvironment and inputFileString = "''a.memeasm''",
             OF h1 h2(1) h3(1)]
  note t0 = o42069_output [where commandList = exampleCommandList and st = ?st and P = LINUX and
               env = exampleEnvironment and inputFileString = "''a.memeasm''",
             OF h1 h2(2) h3(2)]
  from t1 op(1) have a: "translateToAssembly exampleCommandList ?cs ?st 1 = Inr ([], ?st)"
    by blast
  from t0 op(2) have "translateToAssembly exampleCommandList ?cs ?st 0 =
              (case writeTranslatedLine exampleCommandList (mkCommand 0 ''main'' [] 1) of
                 Inl f \<Rightarrow> Inl f
               | Inr line \<Rightarrow>
                   Inr (line @ TAB @ ''xor rax, rax\<newline>'' @ TAB @ ''ret\<newline>'',
                        if useStabs ?cs
                        then ?st\<lparr>currentFunctionName := Some (fst (parameters (mkCommand 0 ''main'' [] 1)))\<rparr>
                        else ?st))"
    by blast
  then have b: "translateToAssembly exampleCommandList ?cs ?st 0 =
     Inr (''main:\<newline>'' @ TAB @ ''xor rax, rax\<newline>'' @ TAB @ ''ret\<newline>'', ?st)"
    unfolding w using ns by simp
  from t0 have "writeToFile LINUX exampleEnvironment exampleCommandList ?cs ''a.memeasm'' =
           (case translateCommands exampleCommandList ?cs ?st [0 ..< arraySize (commandsArray ?cs)] of
              Inl f \<Rightarrow> Inl f
            | Inr body \<Rightarrow>
                Inr (prelude LINUX exampleEnvironment ?cs ''a.memeasm'' @ body @
                     (if useStabs ?cs then stabsEpilogue (arrayPointer (commandsArray ?cs))
                      else [])))"
    by blast
  then have c: "writeToFile LINUX exampleEnvironment exampleCommandList ?cs ''a.memeasm'' =
     Inr (prelude LINUX exampleEnvironment ?cs ''a.memeasm'' @
          ''main:\<newline>'' @ TAB @ ''xor rax, rax\<newline>'' @ TAB @ ''ret\<newline>'')"
    unfolding tc using ns by simp
  from a b c show ?thesis by blast
qed

subsection \<open>The confused-stonks label\<close>











lemma stateAfter_append:
  "stateAfter commandList cs st (xs @ ys) =
     stateAfter commandList cs (stateAfter commandList cs st xs) ys"
  by (induction xs arbitrary: st) (auto split: sum.splits)

text \<open>
  \<open>DNLABEL\<close> is set, for one, when the command right before is a translated ignored command.
\<close>

lemma DNLABEL_after_ignored_command:
  assumes "Suc q < arraySize (commandsArray cs)"
    and "c = arrayPointer (commandsArray cs) ! q"
    and "translate c = 1"
    and "useStabs cs" and "optimisationLevel cs \<noteq> o42069"
    and "opcode c \<noteq> 0" and "stabs_ignore commandList (opcode c)"
    and "usedParameters (commandList (opcode c)) \<le> 2"
  shows "DNLABEL (stateAfter commandList cs st [0 ..< Suc q]) = 1"
proof -
  let ?s = "stateAfter commandList cs st [0 ..< q]"
  have at: "commandAt cs q = Inr c" "commandAt cs (Suc q) = Inr (arrayPointer (commandsArray cs) ! Suc q)"
    using assms(1,2) by (simp_all add: commandAt_def)
  have l: "stabsLabel commandList cs ?s q c =
             Inr (stabs_writeLineLabel (arrayPointer (commandsArray cs) ! Suc q), ?s\<lparr>DNLABEL := 1\<rparr>)"
    using assms(4,6,7) by (simp add: stabsLabel_def at)
  have w: "writeTranslatedLine commandList c = Inr (specLine commandList c)"
    using assms(8) by (rule writeTranslatedLine_substitute)
  obtain info where i: "stabsLineInfo commandList cs (?s\<lparr>DNLABEL := 1\<rparr>) q c = Inr info"
    using stabsLineInfo_fault [of q cs commandList "?s\<lparr>DNLABEL := 1\<rparr>" c] assms(1)
    by (cases "stabsLineInfo commandList cs (?s\<lparr>DNLABEL := 1\<rparr>) q c") auto
  have "snd (projr (translateToAssembly commandList cs ?s q)) = ?s\<lparr>DNLABEL := 1\<rparr> \<and>
        \<not> isl (translateToAssembly commandList cs ?s q)"
    using assms(5) by (simp add: translateToAssembly_def at l w i)
  then have "stateAfter commandList cs ?s [q] = ?s\<lparr>DNLABEL := 1\<rparr>"
    using assms(2,3) by (auto split: sum.splits)
  then show ?thesis by (simp add: stateAfter_append)
qed

end
